theory Spec2Isabelle
  imports Main "HOL-Library.Multiset"
begin

section \<open>Python text\<close>

text \<open>
  A Python \<open>str\<close> is a sequence of Unicode code points, so a text is a list of
  naturals. ASCII literals are written through \<open>cps\<close>; the accented letters of
  the program's Portuguese words are given by their code points
  (237 is i-acute, 233 is e-acute).

  The case mappings below are those of Unicode on U+0000 .. U+00FF (Basic Latin and
  Latin-1 Supplement). Beyond U+00FF they hold every code point whose lower case or
  title case lies wholly within U+0000 .. U+00FF (the Kelvin and Angstrom signs,
  Y-diaeresis, capital sharp s, dotless i, long s and the ligatures U+FB00 .. U+FB06);
  any other code point is mapped to itself and counts as uncased. The program compares
  a normalised text only with its own constants, which lie within U+0000 .. U+00FF,
  and it stores or reports a normalised text only after such a comparison succeeded:
  an image that contains a code point beyond U+00FF cannot equal a constant, whether
  it is the true image or the code point itself.
\<close>

type_synonym pystr = "nat list"

definition cps :: "string \<Rightarrow> pystr" where
  "cps s = map of_char s"

definition py_isspace :: "nat \<Rightarrow> bool" where
  "py_isspace c \<longleftrightarrow>
     (9 \<le> c \<and> c \<le> 13) \<or> (28 \<le> c \<and> c \<le> 32) \<or> c = 133 \<or> c = 160 \<or> c = 5760 \<or>
     (8192 \<le> c \<and> c \<le> 8202) \<or> c = 8232 \<or> c = 8233 \<or> c = 8239 \<or> c = 8287 \<or> c = 12288"

text \<open>\<open>str.strip()\<close>: whitespace is dropped at both ends.\<close>

definition py_strip :: "pystr \<Rightarrow> pystr" where
  "py_strip s = rev (dropWhile py_isspace (rev (dropWhile py_isspace s)))"

definition lower_cp :: "nat \<Rightarrow> pystr" where
  "lower_cp c =
     (if (65 \<le> c \<and> c \<le> 90) \<or> (192 \<le> c \<and> c \<le> 222 \<and> c \<noteq> 215) then [c + 32]
      else if c = 376 then [255]
      else if c = 7838 then [223]
      else if c = 8490 then [107]
      else if c = 8491 then [229]
      else [c])"

text \<open>
  Title case of one code point: the sharp s (223) becomes \<open>Ss\<close>, the micro sign (181)
  and y-diaeresis (255) leave Latin-1; dotless i (305) and long s (383) become
  \<open>I\<close> and \<open>S\<close>, the ligatures U+FB00 .. U+FB06 become \<open>Ff\<close>, \<open>Fi\<close>, \<open>Fl\<close>,
  \<open>Ffi\<close>, \<open>Ffl\<close>, \<open>St\<close> and \<open>St\<close>.
\<close>

definition title_cp :: "nat \<Rightarrow> pystr" where
  "title_cp c =
     (if (97 \<le> c \<and> c \<le> 122) \<or> (224 \<le> c \<and> c \<le> 254 \<and> c \<noteq> 247) then [c - 32]
      else if c = 181 then [924]
      else if c = 223 then [83, 115]
      else if c = 255 then [376]
      else if c = 305 then [73]
      else if c = 383 then [83]
      else if c = 64256 then [70, 102]
      else if c = 64257 then [70, 105]
      else if c = 64258 then [70, 108]
      else if c = 64259 then [70, 102, 105]
      else if c = 64260 then [70, 102, 108]
      else if c = 64261 \<or> c = 64262 then [83, 116]
      else [c])"

definition py_cased :: "nat \<Rightarrow> bool" where
  "py_cased c \<longleftrightarrow>
     (65 \<le> c \<and> c \<le> 90) \<or> (97 \<le> c \<and> c \<le> 122) \<or> c = 170 \<or> c = 181 \<or> c = 186 \<or>
     (192 \<le> c \<and> c \<le> 214) \<or> (216 \<le> c \<and> c \<le> 246) \<or> (248 \<le> c \<and> c \<le> 255) \<or>
     c = 305 \<or> c = 376 \<or> c = 383 \<or> c = 7838 \<or> c = 8490 \<or> c = 8491 \<or>
     (64256 \<le> c \<and> c \<le> 64262)"

definition py_lower :: "pystr \<Rightarrow> pystr" where
  "py_lower s = concat (map lower_cp s)"

text \<open>\<open>str.capitalize()\<close>: the first code point in title case, the rest in lower case.\<close>

definition py_capitalize :: "pystr \<Rightarrow> pystr" where
  "py_capitalize s = (case s of [] \<Rightarrow> [] | c # cs \<Rightarrow> title_cp c @ py_lower cs)"

text \<open>
  \<open>str.title()\<close>: a code point that follows a cased one is lowered, any other is put
  in title case. The flag is whether the previous code point was cased.
\<close>

fun title_from :: "bool \<Rightarrow> pystr \<Rightarrow> pystr" where
  "title_from prev [] = []"
| "title_from prev (c # cs) =
     (if prev then lower_cp c else title_cp c) @ title_from (py_cased c) cs"

definition py_title :: "pystr \<Rightarrow> pystr" where
  "py_title s = title_from False s"

section \<open>Constants of the program\<close>

definition Urgente :: pystr where "Urgente = cps ''Urgente''"
definition Alta :: pystr where "Alta = cps ''Alta''"
definition Media :: pystr where "Media = cps ''M'' @ [233] @ cps ''dia''"
definition Baixa :: pystr where "Baixa = cps ''Baixa''"

definition PRIORITIES :: "pystr list" where
  "PRIORITIES = [Urgente, Alta, Media, Baixa]"

definition PRIORITY_ORDER :: "pystr list" where
  "PRIORITY_ORDER = PRIORITIES"

definition Pendente :: pystr where "Pendente = cps ''Pendente''"
definition Fazendo :: pystr where "Fazendo = cps ''Fazendo''"
definition Concluida :: pystr where "Concluida = cps ''Conclu'' @ [237] @ cps ''da''"
definition Excluida :: pystr where "Excluida = cps ''Exclu'' @ [237] @ cps ''da''"

definition ORIGENS :: "pystr list" where
  "ORIGENS = [cps ''E-mail'', cps ''Telefone'', cps ''Chamado do Sistema'']"

section \<open>Validation\<close>

definition validar_prioridade :: "pystr \<Rightarrow> bool" where
  "validar_prioridade prio \<longleftrightarrow> py_capitalize prio \<in> set PRIORITIES"

definition validar_origem :: "pystr \<Rightarrow> bool" where
  "validar_origem orig \<longleftrightarrow> py_capitalize orig \<in> set (map py_capitalize ORIGENS)"

section \<open>Timestamps\<close>

text \<open>
  A \<open>datetime\<close> is its wall-clock reading, in microseconds since the start of the
  calendar, and its offset from UTC in microseconds, \<open>None\<close> for a naive datetime.
  \<open>datetime.now()\<close> always is naive, so a clock reading is an integer;
  \<open>datetime.fromisoformat\<close> returns a datetime with an offset when the text carries
  one. That function belongs to Python's library, not to this program: the definitions
  take it as the parameter \<open>fromiso\<close>, returning \<open>None\<close> where the library raises.
\<close>

record datetime =
  local_us :: int
  utcoffset :: "int option"

record timedelta =
  days :: int
  seconds :: int
  microseconds :: int

text \<open>The exception the operations on datetimes raise.\<close>

datatype erro = TypeError

text \<open>
  A \<open>timedelta\<close> is normalised: \<open>seconds\<close> lies in 0 .. 86399 and
  \<open>microseconds\<close> in 0 .. 999999, and \<open>days\<close> carries the sign.
\<close>

definition timedelta_us :: "int \<Rightarrow> timedelta" where
  "timedelta_us d =
     \<lparr>days = d div 86400000000,
      seconds = (d mod 86400000000) div 1000000,
      microseconds = d mod 1000000\<rparr>"

text \<open>
  Subtraction and comparison of two datetimes. Two naive datetimes are taken by their
  wall-clock readings, two datetimes with offsets by their instants (reading minus
  offset); one of each kind raises \<open>TypeError\<close>.
\<close>

definition datetime_sub :: "datetime \<Rightarrow> datetime \<Rightarrow> erro + timedelta" where
  "datetime_sub a b =
     (case (utcoffset a, utcoffset b) of
        (None, None) \<Rightarrow> Inr (timedelta_us (local_us a - local_us b))
      | (Some oa, Some ob) \<Rightarrow> Inr (timedelta_us ((local_us a - oa) - (local_us b - ob)))
      | _ \<Rightarrow> Inl TypeError)"

definition datetime_lt :: "datetime \<Rightarrow> datetime \<Rightarrow> erro + bool" where
  "datetime_lt a b =
     (case (utcoffset a, utcoffset b) of
        (None, None) \<Rightarrow> Inr (local_us a < local_us b)
      | (Some oa, Some ob) \<Rightarrow> Inr (local_us a - oa < local_us b - ob)
      | _ \<Rightarrow> Inl TypeError)"

text \<open>\<open>timedelta(days=n)\<close> as a number of microseconds.\<close>

definition timedelta_days :: "int \<Rightarrow> int" where
  "timedelta_days n = n * 86400000000"

text \<open>
  \<open>parse_iso\<close> receives what \<open>dict.get\<close> returned: \<open>None\<close> makes
  \<open>fromisoformat\<close> raise, which the function catches.
\<close>

definition parse_iso :: "(pystr \<Rightarrow> datetime option) \<Rightarrow> pystr option \<Rightarrow> datetime option" where
  "parse_iso fromiso dt_str = (case dt_str of None \<Rightarrow> None | Some s \<Rightarrow> fromiso s)"

section \<open>Tasks and the store\<close>

text \<open>
  A task is a dictionary with eight keys. \<open>id_num\<close> is the value of \<open>int(t.get("id"))\<close>,
  \<open>None\<close> where that conversion raises (key absent or not a number): both readers of
  the key skip such a task. The two dates are \<open>None\<close> or a text.
\<close>

record tarefa =
  id_num :: "int option"
  titulo :: pystr
  descricao :: pystr
  prioridade :: pystr
  status :: pystr
  origem :: pystr
  data_criacao :: "pystr option"
  data_conclusao :: "pystr option"

text \<open>The three globals of the module.\<close>

record estado =
  TASKS :: "tarefa list"
  ARCHIVED_TASKS :: "tarefa list"
  ID_COUNTER :: int

text \<open>Truth value of \<open>t.get("data_conclusao")\<close>: \<open>None\<close> and the empty text are false.\<close>

definition truthy :: "pystr option \<Rightarrow> bool" where
  "truthy v = (case v of None \<Rightarrow> False | Some s \<Rightarrow> s \<noteq> [])"

text \<open>
  The execution time that \<open>mostrar_detalhes_tarefa\<close> computes after it has printed
  the fields: days, hours, minutes and seconds when both dates parse, nothing when the
  completion date is false or a date does not parse. The subtraction is not guarded,
  so its \<open>TypeError\<close> leaves the function.
\<close>

definition tempo_execucao ::
  "(pystr \<Rightarrow> datetime option) \<Rightarrow> tarefa \<Rightarrow> erro + (int \<times> int \<times> int \<times> int) option" where
  "tempo_execucao fromiso t =
     (if truthy (data_conclusao t) then
        (case parse_iso fromiso (data_criacao t) of
           None \<Rightarrow> Inr None
         | Some dt_inicio \<Rightarrow>
             (case parse_iso fromiso (data_conclusao t) of
                None \<Rightarrow> Inr None
              | Some dt_fim \<Rightarrow>
                  (case datetime_sub dt_fim dt_inicio of
                     Inl e \<Rightarrow> Inl e
                   | Inr dur \<Rightarrow>
                       (let dias = days dur;
                            horas = seconds dur div 3600;
                            resto = seconds dur mod 3600;
                            minutos = resto div 60;
                            segundos = resto mod 60
                        in Inr (Some (dias, horas, minutos, segundos))))))
      else Inr None)"

text \<open>
  What \<open>mostrar_detalhes_tarefa\<close> shows: the fields of the task and the execution
  time, or the exception raised once the fields were printed.
\<close>

type_synonym detalhes = "tarefa \<times> (int \<times> int \<times> int \<times> int) option"

definition mostrar_detalhes_tarefa ::
  "(pystr \<Rightarrow> datetime option) \<Rightarrow> tarefa \<Rightarrow> erro + detalhes" where
  "mostrar_detalhes_tarefa fromiso t =
     (case tempo_execucao fromiso t of Inl e \<Rightarrow> Inl e | Inr te \<Rightarrow> Inr (t, te))"

text \<open>
  The loop of the two reports: the details shown in full and, when the rendering of a
  task raised, the exception and that task, after which nothing more is shown.
\<close>

fun mostrar_todas ::
  "(pystr \<Rightarrow> datetime option) \<Rightarrow> tarefa list \<Rightarrow> detalhes list \<times> (erro \<times> tarefa) option" where
  "mostrar_todas fromiso [] = ([], None)"
| "mostrar_todas fromiso (t # ts) =
     (case mostrar_detalhes_tarefa fromiso t of
        Inl e \<Rightarrow> ([], Some (e, t))
      | Inr d \<Rightarrow> (let (ds, r) = mostrar_todas fromiso ts in (d # ds, r)))"

text \<open>
  What an operation reports to the user. \<open>Selecionada\<close> carries the rendering of the
  selected task, which is an exception when the rendering raised; \<open>Relatorio\<close> carries
  the result of the report loop; \<open>Levantou\<close> stands for an exception raised before
  anything was shown or changed.
\<close>

datatype mensagem =
    TituloObrigatorio
  | PrioridadeInvalida
  | OrigemInvalida
  | TarefaCriada int
  | NaoHaPendentes
  | Selecionada "erro + detalhes"
  | IdInvalido
  | NaoEncontrada
  | PrioridadeAlterada int pystr
  | JaConcluida
  | MarcadaConcluida int pystr
  | NenhumaParaArquivar
  | Arquivadas nat
  | MarcadaExcluida int
  | NenhumaAtiva
  | NenhumaArquivada
  | Relatorio "detalhes list" "(erro \<times> tarefa) option"
  | Levantou erro
  | DadosSalvos

section \<open>Loading and identifiers\<close>

fun max_id_loop :: "int \<Rightarrow> tarefa list \<Rightarrow> int" where
  "max_id_loop max_id [] = max_id"
| "max_id_loop max_id (t # ts) =
     max_id_loop (case id_num t of
                    None \<Rightarrow> max_id
                  | Some tid \<Rightarrow> if tid > max_id then tid else max_id) ts"

text \<open>
  \<open>carregar_dados\<close>: the arguments are the two lists read from the files (empty when
  a file is missing or does not parse).
\<close>

definition carregar_dados :: "tarefa list \<Rightarrow> tarefa list \<Rightarrow> estado" where
  "carregar_dados tasks_json archive_json =
     \<lparr>TASKS = tasks_json, ARCHIVED_TASKS = archive_json,
      ID_COUNTER = max_id_loop 0 (tasks_json @ archive_json) + 1\<rparr>"

definition gerar_id :: "estado \<Rightarrow> int \<times> estado" where
  "gerar_id st = (ID_COUNTER st, st\<lparr>ID_COUNTER := ID_COUNTER st + 1\<rparr>)"

section \<open>Operations\<close>

text \<open>
  \<open>criar_tarefa\<close>: the four texts are what the user typed at the four prompts,
  \<open>agora\<close> is the result of \<open>agora_iso()\<close>.
\<close>

definition criar_tarefa ::
  "pystr \<Rightarrow> pystr \<Rightarrow> pystr \<Rightarrow> pystr \<Rightarrow> pystr \<Rightarrow> estado \<Rightarrow> estado \<times> mensagem" where
  "criar_tarefa titulo_in descricao_in prioridade_in origem_in agora st =
     (let titulo_v = py_strip titulo_in in
      if titulo_v = [] then (st, TituloObrigatorio)
      else
        let descricao_v = py_strip descricao_in;
            prioridade_v = py_capitalize (py_strip prioridade_in)
        in
        if \<not> validar_prioridade prioridade_v then (st, PrioridadeInvalida)
        else
          let origem_v = py_strip origem_in;
              origem_title = py_title origem_v;
              origem_norm =
                (if py_lower origem_title \<in>
                      set [cps ''chamado'', cps ''chamadodosistema'', cps ''chamado do sistema'']
                 then cps ''Chamado do Sistema'' else origem_title)
          in
          if \<not> validar_origem origem_norm then (st, OrigemInvalida)
          else
            let (novo_id, st1) = gerar_id st;
                t = \<lparr>id_num = Some novo_id, titulo = titulo_v, descricao = descricao_v,
                     prioridade = prioridade_v, status = Pendente, origem = origem_norm,
                     data_criacao = Some agora, data_conclusao = None\<rparr>
            in (st1\<lparr>TASKS := TASKS st1 @ [t]\<rparr>, TarefaCriada novo_id))"

text \<open>
  \<open>encontrar_tarefa_por_id\<close> returns a reference to the first task of \<open>TASKS\<close> with
  the id; the model returns its position, so that the caller's assignment to a key
  is an update of the list at that position.
\<close>

fun encontrar_tarefa_por_id :: "tarefa list \<Rightarrow> int \<Rightarrow> nat option" where
  "encontrar_tarefa_por_id [] tid = None"
| "encontrar_tarefa_por_id (t # ts) tid =
     (if id_num t = Some tid then Some 0
      else map_option Suc (encontrar_tarefa_por_id ts tid))"

text \<open>
  \<open>verificar_urgencia\<close>: \<open>pendentes\<close> holds the positions of the pending tasks, in
  list order; the two nested loops look, level by level, for the first of them with
  that priority.
\<close>

definition pendentes :: "tarefa list \<Rightarrow> nat list" where
  "pendentes ts = filter (\<lambda>i. status (ts ! i) = Pendente) [0..<length ts]"

fun buscar_por_prioridade :: "tarefa list \<Rightarrow> nat list \<Rightarrow> pystr list \<Rightarrow> nat option" where
  "buscar_por_prioridade ts pend [] = None"
| "buscar_por_prioridade ts pend (pr # prs) =
     (case find (\<lambda>i. prioridade (ts ! i) = pr) pend of
        Some i \<Rightarrow> Some i
      | None \<Rightarrow> buscar_por_prioridade ts pend prs)"

definition verificar_urgencia ::
  "(pystr \<Rightarrow> datetime option) \<Rightarrow> estado \<Rightarrow> estado \<times> mensagem" where
  "verificar_urgencia fromiso st =
     (case pendentes (TASKS st) of
        [] \<Rightarrow> (st, NaoHaPendentes)
      | p0 # _ \<Rightarrow>
          (let selecionada =
                 (case buscar_por_prioridade (TASKS st) (pendentes (TASKS st)) PRIORITY_ORDER of
                    Some i \<Rightarrow> i
                  | None \<Rightarrow> p0);
               t = (TASKS st ! selecionada)\<lparr>status := Fazendo\<rparr>
           in (st\<lparr>TASKS := (TASKS st)[selecionada := t]\<rparr>,
               Selecionada (mostrar_detalhes_tarefa fromiso t))))"

text \<open>
  In the three operations that ask for an id, \<open>tid_in\<close> is the result of
  \<open>int(input().strip())\<close>, \<open>None\<close> where it raises.
\<close>

definition atualizar_prioridade :: "int option \<Rightarrow> pystr \<Rightarrow> estado \<Rightarrow> estado \<times> mensagem" where
  "atualizar_prioridade tid_in nova_in st =
     (case tid_in of
        None \<Rightarrow> (st, IdInvalido)
      | Some tid \<Rightarrow>
          (case encontrar_tarefa_por_id (TASKS st) tid of
             None \<Rightarrow> (st, NaoEncontrada)
           | Some i \<Rightarrow>
               (let nova = py_capitalize (py_strip nova_in) in
                if \<not> validar_prioridade nova then (st, PrioridadeInvalida)
                else (st\<lparr>TASKS := (TASKS st)[i := (TASKS st ! i)\<lparr>prioridade := nova\<rparr>]\<rparr>,
                      PrioridadeAlterada tid nova))))"

definition concluir_tarefa :: "int option \<Rightarrow> pystr \<Rightarrow> estado \<Rightarrow> estado \<times> mensagem" where
  "concluir_tarefa tid_in agora st =
     (case tid_in of
        None \<Rightarrow> (st, IdInvalido)
      | Some tid \<Rightarrow>
          (case encontrar_tarefa_por_id (TASKS st) tid of
             None \<Rightarrow> (st, NaoEncontrada)
           | Some i \<Rightarrow>
               if status (TASKS st ! i) = Concluida then (st, JaConcluida)
               else (st\<lparr>TASKS := (TASKS st)[i := (TASKS st ! i)
                                    \<lparr>status := Concluida, data_conclusao := Some agora\<rparr>]\<rparr>,
                     MarcadaConcluida tid agora)))"

text \<open>
  \<open>arquivar_tarefas_antigas\<close>: \<open>agora\<close> is the reading of \<open>datetime.now()\<close>.
  The first loop collects the tasks to move; its comparison is not guarded, so a
  completed task whose date carries an offset makes the function raise there, before
  anything is moved. \<open>salvar_dados\<close> writes the two files and leaves the globals as
  they are.
\<close>

fun a_mover ::
  "(pystr \<Rightarrow> datetime option) \<Rightarrow> datetime \<Rightarrow> tarefa list \<Rightarrow> erro + tarefa list" where
  "a_mover fromiso limite [] = Inr []"
| "a_mover fromiso limite (t # ts) =
     (if status t = Concluida \<and> truthy (data_conclusao t) then
        (case parse_iso fromiso (data_conclusao t) of
           None \<Rightarrow> a_mover fromiso limite ts
         | Some dt \<Rightarrow>
             (case datetime_lt dt limite of
                Inl e \<Rightarrow> Inl e
              | Inr older \<Rightarrow>
                  (case a_mover fromiso limite ts of
                     Inl e \<Rightarrow> Inl e
                   | Inr mv \<Rightarrow> Inr (if older then t # mv else mv))))
      else a_mover fromiso limite ts)"

definition arquivar_tarefas_antigas ::
  "(pystr \<Rightarrow> datetime option) \<Rightarrow> int \<Rightarrow> estado \<Rightarrow> estado \<times> mensagem" where
  "arquivar_tarefas_antigas fromiso agora st =
     (let limite = \<lparr>local_us = agora - timedelta_days 7, utcoffset = None\<rparr> in
      case a_mover fromiso limite (TASKS st) of
        Inl e \<Rightarrow> (st, Levantou e)
      | Inr mv \<Rightarrow>
          if mv = [] then (st, NenhumaParaArquivar)
          else (st\<lparr>ARCHIVED_TASKS := ARCHIVED_TASKS st @ mv,
                    TASKS := filter (\<lambda>t. t \<notin> set mv) (TASKS st)\<rparr>,
                Arquivadas (length mv)))"

definition excluir_tarefa :: "int option \<Rightarrow> estado \<Rightarrow> estado \<times> mensagem" where
  "excluir_tarefa tid_in st =
     (case tid_in of
        None \<Rightarrow> (st, IdInvalido)
      | Some tid \<Rightarrow>
          (case encontrar_tarefa_por_id (TASKS st) tid of
             None \<Rightarrow> (st, NaoEncontrada)
           | Some i \<Rightarrow>
               (st\<lparr>TASKS := (TASKS st)[i := (TASKS st ! i)\<lparr>status := Excluida\<rparr>]\<rparr>,
                MarcadaExcluida tid)))"

definition relatorio_tarefas :: "(pystr \<Rightarrow> datetime option) \<Rightarrow> estado \<Rightarrow> estado \<times> mensagem" where
  "relatorio_tarefas fromiso st =
     (if TASKS st = [] then (st, NenhumaAtiva)
      else (let (ds, r) = mostrar_todas fromiso (TASKS st) in (st, Relatorio ds r)))"

definition relatorio_arquivadas :: "(pystr \<Rightarrow> datetime option) \<Rightarrow> estado \<Rightarrow> estado \<times> mensagem" where
  "relatorio_arquivadas fromiso st =
     (let arquivadas_validas = filter (\<lambda>t. status t \<noteq> Excluida) (ARCHIVED_TASKS st) in
      if arquivadas_validas = [] then (st, NenhumaArquivada)
      else (let (ds, r) = mostrar_todas fromiso arquivadas_validas in (st, Relatorio ds r)))"

section \<open>The session\<close>

text \<open>
  One choice of the menu with what the user typed for it and the clock readings the
  operation takes. Choice 0 ends the session and is not a command. The loop calls each
  operation inside \<open>try\<close>: an exception is reported and the menu goes on, with the
  store as the operation left it.
\<close>

datatype comando =
    CriarTarefa pystr pystr pystr pystr pystr
  | VerificarUrgencia
  | AtualizarPrioridade "int option" pystr
  | ConcluirTarefa "int option" pystr
  | ArquivarTarefasAntigas int
  | ExcluirTarefa "int option"
  | RelatorioTarefas
  | RelatorioArquivadas
  | SalvarDados

fun executar :: "(pystr \<Rightarrow> datetime option) \<Rightarrow> comando \<Rightarrow> estado \<Rightarrow> estado \<times> mensagem" where
  "executar fromiso (CriarTarefa ti de pr orig agora) st = criar_tarefa ti de pr orig agora st"
| "executar fromiso VerificarUrgencia st = verificar_urgencia fromiso st"
| "executar fromiso (AtualizarPrioridade tid nova) st = atualizar_prioridade tid nova st"
| "executar fromiso (ConcluirTarefa tid agora) st = concluir_tarefa tid agora st"
| "executar fromiso (ArquivarTarefasAntigas agora) st = arquivar_tarefas_antigas fromiso agora st"
| "executar fromiso (ExcluirTarefa tid) st = excluir_tarefa tid st"
| "executar fromiso RelatorioTarefas st = relatorio_tarefas fromiso st"
| "executar fromiso RelatorioArquivadas st = relatorio_arquivadas fromiso st"
| "executar fromiso SalvarDados st = (st, DadosSalvos)"

fun menu_loop ::
  "(pystr \<Rightarrow> datetime option) \<Rightarrow> comando list \<Rightarrow> estado \<Rightarrow> estado \<times> mensagem list" where
  "menu_loop fromiso [] st = (st, [])"
| "menu_loop fromiso (c # cs) st =
     (let (st1, m) = executar fromiso c st;
          (st2, ms) = menu_loop fromiso cs st1
      in (st2, m # ms))"

text \<open>
  \<open>main\<close>: load, one archival sweep at \<open>agora0\<close>, then the menu. The result is the
  store when the commands are used up and everything reported, in order. The sweep at
  start is called outside \<open>try\<close>: when it raises, the program ends there and no
  command is run.
\<close>

definition main ::
  "(pystr \<Rightarrow> datetime option) \<Rightarrow> tarefa list \<Rightarrow> tarefa list \<Rightarrow> int \<Rightarrow> comando list
     \<Rightarrow> estado \<times> mensagem list" where
  "main fromiso tasks_json archive_json agora0 cmds =
     (let st0 = carregar_dados tasks_json archive_json;
          (st1, m) = arquivar_tarefas_antigas fromiso agora0 st0
      in case m of
           Levantou e \<Rightarrow> (st1, [m])
         | _ \<Rightarrow> (let (st2, ms) = menu_loop fromiso cmds st1 in (st2, m # ms)))"

text \<open>The ids a session handed out, in the order of creation.\<close>

fun ids_criados :: "mensagem list \<Rightarrow> int list" where
  "ids_criados [] = []"
| "ids_criados (TarefaCriada n # ms) = n # ids_criados ms"
| "ids_criados (m # ms) = ids_criados ms"

text \<open>The ids of a collection, in list order (a task without a readable id has none).\<close>

definition ids :: "tarefa list \<Rightarrow> int list" where
  "ids ts = List.map_filter id_num ts"

section \<open>An instance of \<open>fromisoformat\<close>\<close>

text \<open>
  The texts that \<open>datetime.isoformat()\<close> writes: \<open>YYYY-MM-DDTHH:MM:SS\<close>, followed by
  \<open>.ffffff\<close> when the microsecond is not zero, and by the offset \<open>+HH:MM\<close> or
  \<open>-HH:MM\<close> for a datetime that has one. The library's function accepts more; this
  instance is what the concrete examples below are evaluated with.
\<close>

fun digits_val :: "int \<Rightarrow> pystr \<Rightarrow> int option" where
  "digits_val acc [] = Some acc"
| "digits_val acc (c # cs) =
     (if 48 \<le> c \<and> c \<le> 57 then digits_val (10 * acc + (int c - 48)) cs else None)"

definition is_leap :: "int \<Rightarrow> bool" where
  "is_leap y \<longleftrightarrow> y mod 4 = 0 \<and> (y mod 100 \<noteq> 0 \<or> y mod 400 = 0)"

definition days_in_month :: "int \<Rightarrow> int \<Rightarrow> int" where
  "days_in_month y m =
     (if m = 2 then (if is_leap y then 29 else 28)
      else if m = 4 \<or> m = 6 \<or> m = 9 \<or> m = 11 then 30 else 31)"

definition days_before_year :: "int \<Rightarrow> int" where
  "days_before_year y = (y - 1) * 365 + (y - 1) div 4 - (y - 1) div 100 + (y - 1) div 400"

definition days_before_month :: "int \<Rightarrow> int \<Rightarrow> int" where
  "days_before_month y m = sum_list (map (days_in_month y) [1..m - 1])"

text \<open>The fraction of a second, if the text goes on with one, and the text after it.\<close>

definition parse_frac :: "pystr \<Rightarrow> (int \<times> pystr) option" where
  "parse_frac r =
     (if take 1 r = cps ''.'' then
        (if length r < 7 then None
         else (case digits_val 0 (take 6 (drop 1 r)) of
                 None \<Rightarrow> None
               | Some us \<Rightarrow> Some (us, drop 7 r)))
      else Some (0, r))"

text \<open>The offset at the end of the text, in microseconds: none, or a sign and \<open>HH:MM\<close>.\<close>

definition parse_offset :: "pystr \<Rightarrow> int option option" where
  "parse_offset r =
     (if r = [] then Some None
      else if length r = 6 \<and> (take 1 r = cps ''+'' \<or> take 1 r = cps ''-'') \<and>
              take 1 (drop 3 r) = cps '':'' then
        (case (digits_val 0 (take 2 (drop 1 r)), digits_val 0 (drop 4 r)) of
           (Some hh, Some mm) \<Rightarrow>
             if hh < 24 \<and> mm < 60
             then Some (Some ((if take 1 r = cps ''-'' then - 1 else 1) *
                              ((hh * 60 + mm) * 60 * 1000000)))
             else None
         | _ \<Rightarrow> None)
      else None)"

definition fromisoformat :: "pystr \<Rightarrow> datetime option" where
  "fromisoformat s =
     (if 19 \<le> length s \<and>
         take 1 (drop 4 s) = cps ''-'' \<and> take 1 (drop 7 s) = cps ''-'' \<and>
         take 1 (drop 10 s) = cps ''T'' \<and> take 1 (drop 13 s) = cps '':'' \<and>
         take 1 (drop 16 s) = cps '':''
      then
        (case (digits_val 0 (take 4 s), digits_val 0 (take 2 (drop 5 s)),
               digits_val 0 (take 2 (drop 8 s)), digits_val 0 (take 2 (drop 11 s)),
               digits_val 0 (take 2 (drop 14 s)), digits_val 0 (take 2 (drop 17 s)),
               parse_frac (drop 19 s)) of
           (Some y, Some m, Some d, Some hh, Some mm, Some ss, Some (us, r)) \<Rightarrow>
             (case parse_offset r of
                None \<Rightarrow> None
              | Some off \<Rightarrow>
                  if 1 \<le> y \<and> 1 \<le> m \<and> m \<le> 12 \<and> 1 \<le> d \<and> d \<le> days_in_month y m \<and>
                     hh < 24 \<and> mm < 60 \<and> ss < 60
                  then Some \<lparr>local_us =
                               ((((days_before_year y + days_before_month y m + d - 1) * 24 + hh) * 60
                                  + mm) * 60 + ss) * 1000000 + us,
                             utcoffset = off\<rparr>
                  else None)
         | _ \<Rightarrow> None)
      else None)"

section \<open>Reading a report, and example data\<close>



text \<open>
  A task as the program stores it, for the concrete examples: id, priority, status and
  completion date vary, the creation date is 10:00 on 1 January 2024.
\<close>

definition tarefa_exemplo :: "int \<Rightarrow> pystr \<Rightarrow> pystr \<Rightarrow> pystr option \<Rightarrow> tarefa" where
  "tarefa_exemplo n pr stt concl =
     \<lparr>id_num = Some n, titulo = cps ''Fix bug'', descricao = [], prioridade = pr,
      status = stt, origem = cps ''Telefone'',
      data_criacao = Some (cps ''2024-01-01T10:00:00''), data_conclusao = concl\<rparr>"

definition estado_exemplo :: "tarefa list \<Rightarrow> tarefa list \<Rightarrow> estado" where
  "estado_exemplo ts arqs = carregar_dados ts arqs"

definition Critica :: pystr where "Critica = cps ''Cr'' @ [237] @ cps ''tica''"


section \<open>Bookkeeping of ids\<close>

text \<open>The id a report announces, if it announces a creation.\<close>

fun criado :: "mensagem \<Rightarrow> int option" where
  "criado (TarefaCriada n) = Some n"
| "criado m = None"

text \<open>Both collections together, the active one first.\<close>

definition todas :: "estado \<Rightarrow> tarefa list" where
  "todas st = TASKS st @ ARCHIVED_TASKS st"

text \<open>Every id is below the counter.\<close>

definition ids_abaixo :: "estado \<Rightarrow> bool" where
  "ids_abaixo st \<longleftrightarrow> (\<forall>i\<in>set (ids (todas st)). i < ID_COUNTER st)"

text \<open>What one operation does to the ids and to the counter.\<close>

definition passo :: "estado \<Rightarrow> estado \<Rightarrow> mensagem \<Rightarrow> bool" where
  "passo st st' m \<longleftrightarrow>
     (case criado m of
        Some n \<Rightarrow> n = ID_COUNTER st \<and> ID_COUNTER st' = n + 1 \<and>
                  mset (ids (todas st')) = add_mset n (mset (ids (todas st)))
      | None \<Rightarrow> ID_COUNTER st' = ID_COUNTER st \<and>
                mset (ids (todas st')) = mset (ids (todas st)))"

section \<open>Finding a task by id\<close>

lemma encontrar_Some:
  "encontrar_tarefa_por_id ts tid = Some i \<Longrightarrow>
     i < length ts \<and> id_num (ts ! i) = Some tid \<and> (\<forall>j<i. id_num (ts ! j) \<noteq> Some tid)"
proof (induction ts arbitrary: i)
  case Nil
  then show ?case by simp
next
  case (Cons t ts)
  show ?case
  proof (cases "id_num t = Some tid")
    case True
    with Cons.prems show ?thesis by simp
  next
    case False
    with Cons.prems obtain k where k: "encontrar_tarefa_por_id ts tid = Some k" "i = Suc k"
      by auto
    from Cons.IH [OF k(1)] False k(2) show ?thesis
      by (auto simp: nth_Cons split: nat.splits)
  qed
qed

lemma encontrar_same_ids:
  "map id_num ts' = map id_num ts \<Longrightarrow>
     encontrar_tarefa_por_id ts' tid = encontrar_tarefa_por_id ts tid"
proof (induction ts arbitrary: ts')
  case Nil
  then show ?case by simp
next
  case (Cons t ts)
  then obtain u us where u: "ts' = u # us" "id_num u = id_num t" "map id_num us = map id_num ts"
    by (cases ts') auto
  from Cons.IH [OF u(3)] u(1,2) show ?case by simp
qed

lemma map_id_num_update:
  assumes "id_num u = id_num (ts ! i)"
  shows "map id_num (ts[i := u]) = map id_num ts"
proof -
  have "map id_num (ts[i := u]) = (map id_num ts)[i := id_num (ts ! i)]"
    using assms by (simp add: map_update)
  also have "\<dots> = map id_num ts"
  proof (cases "i < length ts")
    case True
    then show ?thesis by (simp add: list_update_same_conv)
  next
    case False
    then have "length (map id_num ts) \<le> i" by simp
    then show ?thesis by (rule list_update_beyond)
  qed
  finally show ?thesis .
qed

lemma status_distinct:
  "Concluida \<noteq> Excluida" "Concluida \<noteq> Pendente" "Concluida \<noteq> Fazendo"
  "Pendente \<noteq> Fazendo" "Pendente \<noteq> Excluida" "Fazendo \<noteq> Excluida"
  by (simp_all add: Concluida_def Excluida_def Pendente_def Fazendo_def cps_def)

lemmas iso_defs = fromisoformat_def parse_frac_def parse_offset_def cps_def
  days_before_year_def days_before_month_def days_in_month_def is_leap_def

section \<open>Completion\<close>

lemma concluir_nova:
  assumes "encontrar_tarefa_por_id (TASKS st) tid = Some i"
    and "status (TASKS st ! i) \<noteq> Concluida"
  shows "concluir_tarefa (Some tid) agora st =
           (st\<lparr>TASKS := (TASKS st)[i := (TASKS st ! i)
                            \<lparr>status := Concluida, data_conclusao := Some agora\<rparr>]\<rparr>,
            MarcadaConcluida tid agora)"
  using assms by (simp add: concluir_tarefa_def)

lemma concluir_ja:
  assumes "encontrar_tarefa_por_id (TASKS st) tid = Some i"
    and "status (TASKS st ! i) = Concluida"
  shows "concluir_tarefa (Some tid) agora st = (st, JaConcluida)"
  using assms by (simp add: concluir_tarefa_def)

text \<open>
  C3. Completing is idempotent in its timestamp. When the id resolves to an active task
  that is not yet \<open>Concluida\<close>, the first call reports the completion, sets the
  status to \<open>Concluida\<close> and stamps \<open>data_conclusao\<close> with the clock text of that
  call; a second call, at any later clock text, finds the same task, reports
  "already completed", returns the store as it was and so leaves the stamp of the first
  call. A call on a task that already is \<open>Concluida\<close> changes nothing.
\<close>

theorem concluir_tarefa_idempotent:
  assumes "encontrar_tarefa_por_id (TASKS st) tid = Some i"
  shows "(status (TASKS st ! i) \<noteq> Concluida \<longrightarrow>
            (let st1 = fst (concluir_tarefa (Some tid) agora1 st) in
               snd (concluir_tarefa (Some tid) agora1 st) = MarcadaConcluida tid agora1 \<and>
               encontrar_tarefa_por_id (TASKS st1) tid = Some i \<and>
               status (TASKS st1 ! i) = Concluida \<and>
               data_conclusao (TASKS st1 ! i) = Some agora1 \<and>
               concluir_tarefa (Some tid) agora2 st1 = (st1, JaConcluida) \<and>
               data_conclusao (TASKS (fst (concluir_tarefa (Some tid) agora2 st1)) ! i)
                 = Some agora1)) \<and>
         (status (TASKS st ! i) = Concluida \<longrightarrow>
            concluir_tarefa (Some tid) agora2 st = (st, JaConcluida))"
proof (intro conjI impI)
  assume ja: "status (TASKS st ! i) = Concluida"
  with assms show "concluir_tarefa (Some tid) agora2 st = (st, JaConcluida)"
    by (rule concluir_ja)
next
  assume fresh: "status (TASKS st ! i) \<noteq> Concluida"
  define t' where "t' = (TASKS st ! i)\<lparr>status := Concluida, data_conclusao := Some agora1\<rparr>"
  define st1 where "st1 = st\<lparr>TASKS := (TASKS st)[i := t']\<rparr>"
  have first: "concluir_tarefa (Some tid) agora1 st = (st1, MarcadaConcluida tid agora1)"
    using concluir_nova [OF assms fresh] by (simp add: st1_def t'_def)
  have len: "i < length (TASKS st)"
    using encontrar_Some [OF assms] by simp
  have same: "map id_num (TASKS st1) = map id_num (TASKS st)"
    unfolding st1_def by (simp add: map_id_num_update t'_def)
  have found: "encontrar_tarefa_por_id (TASKS st1) tid = Some i"
    using encontrar_same_ids [OF same, of tid] assms by simp
  have at_i: "TASKS st1 ! i = t'"
    using len by (simp add: st1_def)
  have st_i: "status (TASKS st1 ! i) = Concluida"
    by (simp add: at_i t'_def)
  have dc_i: "data_conclusao (TASKS st1 ! i) = Some agora1"
    by (simp add: at_i t'_def)
  have second: "concluir_tarefa (Some tid) agora2 st1 = (st1, JaConcluida)"
    using found st_i by (rule concluir_ja)
  show "let st1 = fst (concluir_tarefa (Some tid) agora1 st) in
               snd (concluir_tarefa (Some tid) agora1 st) = MarcadaConcluida tid agora1 \<and>
               encontrar_tarefa_por_id (TASKS st1) tid = Some i \<and>
               status (TASKS st1 ! i) = Concluida \<and>
               data_conclusao (TASKS st1 ! i) = Some agora1 \<and>
               concluir_tarefa (Some tid) agora2 st1 = (st1, JaConcluida) \<and>
               data_conclusao (TASKS (fst (concluir_tarefa (Some tid) agora2 st1)) ! i)
                 = Some agora1"
    unfolding Let_def first fst_conv snd_conv second
    using found st_i dc_i by simp
qed

theorem concluir_tarefa_idempotent_witness:
  "encontrar_tarefa_por_id (TASKS (estado_exemplo [tarefa_exemplo 1 Alta Pendente None] [])) 1 = Some 0 \<and>
   (let st = estado_exemplo [tarefa_exemplo 1 Alta Pendente None] [];
        st1 = fst (concluir_tarefa (Some 1) (cps ''2024-01-02T12:03:04'') st)
    in status (TASKS st1 ! 0) = Concluida \<and>
       data_conclusao (TASKS st1 ! 0) = Some (cps ''2024-01-02T12:03:04'') \<and>
       concluir_tarefa (Some 1) (cps ''2024-01-05T08:00:00'') st1 = (st1, JaConcluida))"
proof -
  let ?st = "estado_exemplo [tarefa_exemplo 1 Alta Pendente None] []"
  have f: "encontrar_tarefa_por_id (TASKS ?st) 1 = Some 0"
    by (simp add: estado_exemplo_def carregar_dados_def tarefa_exemplo_def)
  have n: "status (TASKS ?st ! 0) \<noteq> Concluida"
    using status_distinct(2)
    by (simp add: estado_exemplo_def carregar_dados_def tarefa_exemplo_def)
  from concluir_tarefa_idempotent [OF f, of "cps ''2024-01-02T12:03:04''"
      "cps ''2024-01-05T08:00:00''"] n f
  show ?thesis by (simp add: Let_def)
qed

text \<open>
  C9. A logically deleted task is not blocked from completion: on an active task whose
  status is \<open>Excluida\<close> the operation sets the status to \<open>Concluida\<close> and stamps
  \<open>data_conclusao\<close> with the clock text; only \<open>Concluida\<close> itself is guarded.
\<close>

theorem concluir_tarefa_excluida:
  assumes "encontrar_tarefa_por_id (TASKS st) tid = Some i"
    and "status (TASKS st ! i) = Excluida"
  shows "concluir_tarefa (Some tid) agora st =
           (st\<lparr>TASKS := (TASKS st)[i := (TASKS st ! i)
                            \<lparr>status := Concluida, data_conclusao := Some agora\<rparr>]\<rparr>,
            MarcadaConcluida tid agora) \<and>
         status (TASKS (fst (concluir_tarefa (Some tid) agora st)) ! i) = Concluida \<and>
         data_conclusao (TASKS (fst (concluir_tarefa (Some tid) agora st)) ! i) = Some agora"
proof -
  have ne: "status (TASKS st ! i) \<noteq> Concluida"
    using assms(2) status_distinct(1) by simp
  have len: "i < length (TASKS st)"
    using encontrar_Some [OF assms(1)] by simp
  show ?thesis
    using concluir_nova [OF assms(1) ne] len by simp
qed

theorem concluir_tarefa_excluida_witness:
  "encontrar_tarefa_por_id (TASKS (estado_exemplo [tarefa_exemplo 1 Alta Excluida None] [])) 1 = Some 0 \<and>
   status (TASKS (estado_exemplo [tarefa_exemplo 1 Alta Excluida None] []) ! 0) = Excluida \<and>
   (let st1 = fst (concluir_tarefa (Some 1) (cps ''2024-01-02T12:03:04'')
                     (estado_exemplo [tarefa_exemplo 1 Alta Excluida None] []))
    in status (TASKS st1 ! 0) = Concluida \<and>
       data_conclusao (TASKS st1 ! 0) = Some (cps ''2024-01-02T12:03:04''))"
proof -
  let ?st = "estado_exemplo [tarefa_exemplo 1 Alta Excluida None] []"
  have f: "encontrar_tarefa_por_id (TASKS ?st) 1 = Some 0"
    by (simp add: estado_exemplo_def carregar_dados_def tarefa_exemplo_def)
  have e: "status (TASKS ?st ! 0) = Excluida"
    by (simp add: estado_exemplo_def carregar_dados_def tarefa_exemplo_def)
  from concluir_tarefa_excluida [OF f e, of "cps ''2024-01-02T12:03:04''"] f e
  show ?thesis unfolding Let_def by blast
qed

section \<open>Case normalisation and the priority update\<close>

lemmas py_text_defs = py_strip_def py_isspace_def py_capitalize_def title_cp_def py_lower_def
  lower_cp_def cps_def

lemma lower_cp_idem: "concat (map lower_cp (lower_cp c)) = lower_cp c"
  by (auto simp: lower_cp_def)

lemma py_lower_idem: "py_lower (py_lower s) = py_lower s"
  unfolding py_lower_def
  by (induction s) (simp_all add: lower_cp_idem)

lemma py_lower_append: "py_lower (xs @ ys) = py_lower xs @ py_lower ys"
  by (simp add: py_lower_def)

lemma title_cp_upper:
  assumes "(65 \<le> d \<and> d \<le> 90) \<or> (192 \<le> d \<and> d \<le> 222)"
  shows "title_cp d = [d]"
  using assms unfolding title_cp_def by (elim disjE conjE) simp_all

lemma title_cp_shape:
  "\<exists>x xs. title_cp c = x # xs \<and> title_cp x = [x] \<and> py_lower xs = xs"
proof (cases "(97 \<le> c \<and> c \<le> 122) \<or> (224 \<le> c \<and> c \<le> 254 \<and> c \<noteq> 247)")
  case True
  then have "title_cp c = [c - 32]"
    by (simp add: title_cp_def)
  moreover from True have "(65 \<le> c - 32 \<and> c - 32 \<le> 90) \<or> (192 \<le> c - 32 \<and> c - 32 \<le> 222)"
    by arith
  then have "title_cp (c - 32) = [c - 32]"
    by (rule title_cp_upper)
  ultimately show ?thesis
    by (simp add: py_lower_def)
next
  case False
  show ?thesis
  proof (cases "c \<in> {181, 223, 255, 305, 383, 64256, 64257, 64258, 64259, 64260, 64261, 64262}")
    case True
    then show ?thesis
      by (elim insertE emptyE) (simp_all add: title_cp_def py_lower_def lower_cp_def)
  next
    case other: False
    from other have ne: "c \<noteq> 181" "c \<noteq> 223" "c \<noteq> 255" "c \<noteq> 305" "c \<noteq> 383"
      "c \<noteq> 64256" "c \<noteq> 64257" "c \<noteq> 64258" "c \<noteq> 64259" "c \<noteq> 64260"
      "\<not> (c = 64261 \<or> c = 64262)"
      by simp_all
    have "title_cp c = [c]"
      unfolding title_cp_def by (simp only: False ne if_False)
    then show ?thesis
      by (simp add: py_lower_def)
  qed
qed

lemma py_capitalize_idem: "py_capitalize (py_capitalize s) = py_capitalize s"
proof (cases s)
  case Nil
  then show ?thesis by (simp add: py_capitalize_def)
next
  case (Cons c cs)
  obtain x xs where x: "title_cp c = x # xs" "title_cp x = [x]" "py_lower xs = xs"
    using title_cp_shape by blast
  have "py_capitalize (x # xs @ py_lower cs) = x # xs @ py_lower cs"
    by (simp add: py_capitalize_def x(2,3) py_lower_append py_lower_idem)
  with Cons x(1) show ?thesis by (simp add: py_capitalize_def)
qed

lemma validar_prioridade_capitalized:
  "validar_prioridade (py_capitalize s) \<longleftrightarrow> py_capitalize s \<in> set PRIORITIES"
  by (simp add: validar_prioridade_def py_capitalize_idem)

lemma norm_urgente: "py_capitalize (py_strip (cps ''urgente'')) = Urgente"
  by (simp add: py_text_defs Urgente_def)

lemma norm_Urgente: "py_capitalize (py_strip (cps ''Urgente'')) = Urgente"
  by (simp add: py_text_defs Urgente_def)

lemma norm_Critica: "py_capitalize (py_strip Critica) = Critica"
  by (simp add: py_text_defs Critica_def)

lemma Urgente_valida: "Urgente \<in> set PRIORITIES"
  by (simp add: PRIORITIES_def)

lemma Critica_invalida: "Critica \<notin> set PRIORITIES"
  by (simp add: PRIORITIES_def Critica_def Urgente_def Alta_def Media_def Baixa_def cps_def)

lemma atualizar_valida:
  assumes "encontrar_tarefa_por_id (TASKS st) tid = Some i"
    and "py_capitalize (py_strip nova_in) \<in> set PRIORITIES"
  shows "atualizar_prioridade (Some tid) nova_in st =
           (st\<lparr>TASKS := (TASKS st)[i := (TASKS st ! i)
                            \<lparr>prioridade := py_capitalize (py_strip nova_in)\<rparr>]\<rparr>,
            PrioridadeAlterada tid (py_capitalize (py_strip nova_in)))"
  using assms by (simp add: atualizar_prioridade_def validar_prioridade_capitalized Let_def)

lemma atualizar_invalida:
  assumes "encontrar_tarefa_por_id (TASKS st) tid = Some i"
    and "py_capitalize (py_strip nova_in) \<notin> set PRIORITIES"
  shows "atualizar_prioridade (Some tid) nova_in st = (st, PrioridadeInvalida)"
  using assms by (simp add: atualizar_prioridade_def validar_prioridade_capitalized Let_def)

section \<open>Urgency selection\<close>

lemma find_append_case:
  "find P (xs @ ys) = (case find P xs of None \<Rightarrow> find P ys | Some x \<Rightarrow> Some x)"
  by (induction xs) auto

lemma find_filter_conj: "find P (filter Q xs) = find (\<lambda>x. Q x \<and> P x) xs"
  by (induction xs) auto

lemma find_upt_Some:
  "find R [0..<n] = Some i \<Longrightarrow> i < n \<and> R i \<and> (\<forall>j<i. \<not> R j)"
proof (induction n)
  case 0
  then show ?case by simp
next
  case (Suc n)
  show ?case
  proof (cases "find R [0..<n]")
    case None
    with Suc.prems have "R n" "i = n"
      by (auto simp: find_append_case split: if_splits)
    moreover from None have "\<forall>j<n. \<not> R j"
      by (simp add: find_None_iff)
    ultimately show ?thesis by simp
  next
    case (Some k)
    with Suc.prems have "i = k"
      by (simp add: find_append_case)
    with Suc.IH Some show ?thesis by auto
  qed
qed

lemma find_upt_None: "find R [0..<n] = None \<longleftrightarrow> (\<forall>j<n. \<not> R j)"
  by (simp add: find_None_iff)

lemma find_as_filter:
  "find Q xs = (case filter Q xs of [] \<Rightarrow> None | x # _ \<Rightarrow> Some x)"
  by (induction xs) auto

lemma filter_upt_Cons:
  assumes "filter Q [0..<n] = p # ps"
  shows "p < n \<and> Q p \<and> (\<forall>j<p. \<not> Q j)"
proof -
  have "find Q [0..<n] = Some p"
    using assms by (simp add: find_as_filter)
  then show ?thesis by (rule find_upt_Some)
qed

lemma pendentes_Nil: "pendentes ts = [] \<longleftrightarrow> (\<forall>t\<in>set ts. status t \<noteq> Pendente)"
  by (auto simp: pendentes_def filter_empty_conv all_set_conv_all_nth)

lemma pendentes_Cons:
  assumes "pendentes ts = p # ps"
  shows "p < length ts \<and> status (ts ! p) = Pendente \<and> (\<forall>j<p. status (ts ! j) \<noteq> Pendente)"
proof -
  have "filter (\<lambda>i. status (ts ! i) = Pendente) [0..<length ts] = p # ps"
    using assms unfolding pendentes_def .
  then show ?thesis by (rule filter_upt_Cons)
qed

lemma find_pendentes_Some:
  assumes "find (\<lambda>i. prioridade (ts ! i) = pr) (pendentes ts) = Some i"
  shows "i < length ts \<and> status (ts ! i) = Pendente \<and> prioridade (ts ! i) = pr \<and>
         (\<forall>j<i. status (ts ! j) = Pendente \<longrightarrow> prioridade (ts ! j) \<noteq> pr)"
proof -
  have "find (\<lambda>i. status (ts ! i) = Pendente \<and> prioridade (ts ! i) = pr) [0..<length ts] = Some i"
    using assms by (simp add: pendentes_def find_filter_conj)
  from find_upt_Some [OF this] show ?thesis by blast
qed

lemma find_pendentes_None:
  "find (\<lambda>i. prioridade (ts ! i) = pr) (pendentes ts) = None \<longleftrightarrow>
     (\<forall>t\<in>set ts. status t = Pendente \<longrightarrow> prioridade t \<noteq> pr)"
proof -
  have "find (\<lambda>i. prioridade (ts ! i) = pr) (pendentes ts) = None \<longleftrightarrow>
          (\<forall>j<length ts. \<not> (status (ts ! j) = Pendente \<and> prioridade (ts ! j) = pr))"
    by (simp add: pendentes_def find_filter_conj find_upt_None)
  also have "\<dots> \<longleftrightarrow> (\<forall>t\<in>set ts. status t = Pendente \<longrightarrow> prioridade t \<noteq> pr)"
    by (simp add: all_set_conv_all_nth)
  finally show ?thesis .
qed

lemma buscar_Some:
  assumes "buscar_por_prioridade ts (pendentes ts) prs = Some i"
  shows "\<exists>k<length prs.
           find (\<lambda>i. prioridade (ts ! i) = prs ! k) (pendentes ts) = Some i \<and>
           (\<forall>k'<k. find (\<lambda>i. prioridade (ts ! i) = prs ! k') (pendentes ts) = None)"
  using assms
proof (induction prs)
  case Nil
  then show ?case by simp
next
  case (Cons pr prs)
  show ?case
  proof (cases "find (\<lambda>i. prioridade (ts ! i) = pr) (pendentes ts)")
    case None
    with Cons.prems have "buscar_por_prioridade ts (pendentes ts) prs = Some i" by simp
    from Cons.IH [OF this] obtain k where k: "k < length prs"
      "find (\<lambda>i. prioridade (ts ! i) = prs ! k) (pendentes ts) = Some i"
      "\<forall>k'<k. find (\<lambda>i. prioridade (ts ! i) = prs ! k') (pendentes ts) = None"
      by blast
    have "\<forall>k'<Suc k. find (\<lambda>i. prioridade (ts ! i) = (pr # prs) ! k') (pendentes ts) = None"
      using None k(3) by (auto simp: nth_Cons split: nat.splits)
    with k(1,2) show ?thesis
      by (intro exI [of _ "Suc k"]) simp
  next
    case (Some j)
    with Cons.prems have "j = i" by simp
    with Some show ?thesis
      by (intro exI [of _ 0]) simp
  qed
qed

lemma buscar_None:
  "buscar_por_prioridade ts (pendentes ts) prs = None \<longleftrightarrow>
     (\<forall>pr\<in>set prs. find (\<lambda>i. prioridade (ts ! i) = pr) (pendentes ts) = None)"
  by (induction prs) (auto split: option.splits)

lemma verificar_em:
  assumes "pendentes (TASKS st) = p0 # ps"
    and "i = (case buscar_por_prioridade (TASKS st) (pendentes (TASKS st)) PRIORITY_ORDER of
                Some k \<Rightarrow> k | None \<Rightarrow> p0)"
  shows "verificar_urgencia fromiso st =
           (st\<lparr>TASKS := (TASKS st)[i := (TASKS st ! i)\<lparr>status := Fazendo\<rparr>]\<rparr>,
            Selecionada (mostrar_detalhes_tarefa fromiso ((TASKS st ! i)\<lparr>status := Fazendo\<rparr>)))"
  using assms by (simp add: verificar_urgencia_def Let_def)

lemma verificar_sem_pendentes:
  assumes "\<forall>t\<in>set (TASKS st). status t \<noteq> Pendente"
  shows "verificar_urgencia fromiso st = (st, NaoHaPendentes)"
  using assms pendentes_Nil [of "TASKS st"] by (simp add: verificar_urgencia_def)

lemmas exemplo_defs = estado_exemplo_def carregar_dados_def tarefa_exemplo_def

lemma prioridades_distintas:
  "Critica \<notin> set PRIORITY_ORDER" "Baixa \<in> set PRIORITY_ORDER" "Urgente \<in> set PRIORITY_ORDER"
  "Alta \<in> set PRIORITY_ORDER"
  by (simp_all add: PRIORITY_ORDER_def PRIORITIES_def Critica_def Urgente_def Alta_def Media_def
      Baixa_def cps_def)

text \<open>
  C2, as amended. When some pending task has a priority that is a level of the order
  Urgente, Alta, Media, Baixa, the operation selects position \<open>i\<close> of the active
  collection such that: the task there is pending and its priority is level \<open>k\<close> of
  the order; no pending task has a priority at an earlier level; no pending task before
  position \<open>i\<close> has priority level \<open>k\<close>. The store returned differs from the old one
  only in that the status of the task at position \<open>i\<close> is \<open>Fazendo\<close>, and that task
  is what is shown. When no task is pending, nothing is selected and the store is
  returned as it was.
\<close>

theorem verificar_urgencia_selects:
  "((\<exists>t\<in>set (TASKS st). status t = Pendente \<and> prioridade t \<in> set PRIORITY_ORDER) \<longrightarrow>
      (\<exists>i k. i < length (TASKS st) \<and> k < length PRIORITY_ORDER \<and>
         status (TASKS st ! i) = Pendente \<and>
         prioridade (TASKS st ! i) = PRIORITY_ORDER ! k \<and>
         (\<forall>t\<in>set (TASKS st). status t = Pendente \<longrightarrow>
            (\<forall>k'<k. prioridade t \<noteq> PRIORITY_ORDER ! k')) \<and>
         (\<forall>j<i. status (TASKS st ! j) = Pendente \<longrightarrow>
            prioridade (TASKS st ! j) \<noteq> PRIORITY_ORDER ! k) \<and>
         verificar_urgencia fromiso st =
           (st\<lparr>TASKS := (TASKS st)[i := (TASKS st ! i)\<lparr>status := Fazendo\<rparr>]\<rparr>,
            Selecionada (mostrar_detalhes_tarefa fromiso ((TASKS st ! i)\<lparr>status := Fazendo\<rparr>))))) \<and>
   ((\<forall>t\<in>set (TASKS st). status t \<noteq> Pendente) \<longrightarrow>
      verificar_urgencia fromiso st = (st, NaoHaPendentes))"
proof (intro conjI impI)
  assume "\<forall>t\<in>set (TASKS st). status t \<noteq> Pendente"
  then show "verificar_urgencia fromiso st = (st, NaoHaPendentes)"
    by (rule verificar_sem_pendentes)
next
  let ?ts = "TASKS st"
  assume ex: "\<exists>t\<in>set ?ts. status t = Pendente \<and> prioridade t \<in> set PRIORITY_ORDER"
  then have "pendentes ?ts \<noteq> []"
    by (auto simp: pendentes_Nil)
  then obtain p0 ps where pend: "pendentes ?ts = p0 # ps"
    by (cases "pendentes ?ts") auto
  from ex obtain t where t: "t \<in> set ?ts" "status t = Pendente" "prioridade t \<in> set PRIORITY_ORDER"
    by blast
  then have "find (\<lambda>i. prioridade (?ts ! i) = prioridade t) (pendentes ?ts) \<noteq> None"
    by (auto simp: find_pendentes_None)
  with t(3) have "buscar_por_prioridade ?ts (pendentes ?ts) PRIORITY_ORDER \<noteq> None"
    by (auto simp: buscar_None)
  then obtain i where i: "buscar_por_prioridade ?ts (pendentes ?ts) PRIORITY_ORDER = Some i"
    by auto
  from buscar_Some [OF i] obtain k where k: "k < length PRIORITY_ORDER"
    "find (\<lambda>i. prioridade (?ts ! i) = PRIORITY_ORDER ! k) (pendentes ?ts) = Some i"
    "\<forall>k'<k. find (\<lambda>i. prioridade (?ts ! i) = PRIORITY_ORDER ! k') (pendentes ?ts) = None"
    by blast
  note f = find_pendentes_Some [OF k(2)]
  have earlier: "\<forall>t\<in>set ?ts. status t = Pendente \<longrightarrow> (\<forall>k'<k. prioridade t \<noteq> PRIORITY_ORDER ! k')"
    using k(3) by (auto simp: find_pendentes_None)
  have run: "verificar_urgencia fromiso st =
           (st\<lparr>TASKS := ?ts[i := (?ts ! i)\<lparr>status := Fazendo\<rparr>]\<rparr>,
            Selecionada (mostrar_detalhes_tarefa fromiso ((?ts ! i)\<lparr>status := Fazendo\<rparr>)))"
    by (rule verificar_em [OF pend]) (simp add: i)
  show "\<exists>i k. i < length ?ts \<and> k < length PRIORITY_ORDER \<and>
         status (?ts ! i) = Pendente \<and>
         prioridade (?ts ! i) = PRIORITY_ORDER ! k \<and>
         (\<forall>t\<in>set ?ts. status t = Pendente \<longrightarrow>
            (\<forall>k'<k. prioridade t \<noteq> PRIORITY_ORDER ! k')) \<and>
         (\<forall>j<i. status (?ts ! j) = Pendente \<longrightarrow>
            prioridade (?ts ! j) \<noteq> PRIORITY_ORDER ! k) \<and>
         verificar_urgencia fromiso st =
           (st\<lparr>TASKS := ?ts[i := (?ts ! i)\<lparr>status := Fazendo\<rparr>]\<rparr>,
            Selecionada (mostrar_detalhes_tarefa fromiso ((?ts ! i)\<lparr>status := Fazendo\<rparr>)))"
    using f k(1) earlier run by (intro exI [of _ i] exI [of _ k]) simp
qed

theorem verificar_urgencia_selects_witness:
  "(let st = estado_exemplo [tarefa_exemplo 1 Baixa Pendente None,
                             tarefa_exemplo 2 Urgente Pendente None,
                             tarefa_exemplo 3 Alta Pendente None] []
    in (\<exists>t\<in>set (TASKS st). status t = Pendente \<and> prioridade t \<in> set PRIORITY_ORDER) \<and>
       (\<exists>i k. i < length (TASKS st) \<and> k < length PRIORITY_ORDER \<and>
          prioridade (TASKS st ! i) = PRIORITY_ORDER ! k \<and>
          (\<forall>t\<in>set (TASKS st). status t = Pendente \<longrightarrow>
             (\<forall>k'<k. prioridade t \<noteq> PRIORITY_ORDER ! k')) \<and>
          verificar_urgencia fromisoformat st =
            (st\<lparr>TASKS := (TASKS st)[i := (TASKS st ! i)\<lparr>status := Fazendo\<rparr>]\<rparr>,
             Selecionada (mostrar_detalhes_tarefa fromisoformat
                            ((TASKS st ! i)\<lparr>status := Fazendo\<rparr>)))))"
proof -
  let ?st = "estado_exemplo [tarefa_exemplo 1 Baixa Pendente None,
                             tarefa_exemplo 2 Urgente Pendente None,
                             tarefa_exemplo 3 Alta Pendente None] []"
  have "tarefa_exemplo 2 Urgente Pendente None \<in> set (TASKS ?st)"
    by (simp add: estado_exemplo_def carregar_dados_def)
  moreover have "status (tarefa_exemplo 2 Urgente Pendente None) = Pendente"
    "prioridade (tarefa_exemplo 2 Urgente Pendente None) \<in> set PRIORITY_ORDER"
    using prioridades_distintas(3) by (simp_all add: tarefa_exemplo_def)
  ultimately have h: "\<exists>t\<in>set (TASKS ?st). status t = Pendente \<and> prioridade t \<in> set PRIORITY_ORDER"
    by blast
  from verificar_urgencia_selects [of ?st fromisoformat] h
  show ?thesis unfolding Let_def by blast
qed

text \<open>
  C2 as stated does not hold for every collection with a pending task: here the only
  pending task has the priority \<open>Critica\<close>, which is no level of the order, and the
  operation still selects it and sets its status to \<open>Fazendo\<close>.
\<close>

theorem verificar_urgencia_level_counterexample:
  "status (TASKS (estado_exemplo [tarefa_exemplo 1 Critica Pendente None] []) ! 0) = Pendente \<and>
   verificar_urgencia fromisoformat (estado_exemplo [tarefa_exemplo 1 Critica Pendente None] []) =
     (estado_exemplo [tarefa_exemplo 1 Critica Fazendo None] [],
      Selecionada (mostrar_detalhes_tarefa fromisoformat (tarefa_exemplo 1 Critica Fazendo None))) \<and>
   prioridade (tarefa_exemplo 1 Critica Fazendo None) \<notin> set PRIORITY_ORDER"
proof -
  let ?st = "estado_exemplo [tarefa_exemplo 1 Critica Pendente None] []"
  have p: "pendentes (TASKS ?st) = [0]"
    by (simp add: pendentes_def exemplo_defs)
  have "find (\<lambda>i. prioridade (TASKS ?st ! i) = pr) [0] = None" if "pr \<in> set PRIORITY_ORDER" for pr
    using that prioridades_distintas(1) by (auto simp: exemplo_defs)
  then have b: "buscar_por_prioridade (TASKS ?st) (pendentes (TASKS ?st)) PRIORITY_ORDER = None"
    unfolding p buscar_None [of "TASKS ?st", unfolded p] by blast
  have "verificar_urgencia fromisoformat ?st =
          (?st\<lparr>TASKS := (TASKS ?st)[0 := (TASKS ?st ! 0)\<lparr>status := Fazendo\<rparr>]\<rparr>,
           Selecionada (mostrar_detalhes_tarefa fromisoformat ((TASKS ?st ! 0)\<lparr>status := Fazendo\<rparr>)))"
    by (rule verificar_em [OF p]) (simp add: b)
  then have "verificar_urgencia fromisoformat ?st =
     (estado_exemplo [tarefa_exemplo 1 Critica Fazendo None] [],
      Selecionada (mostrar_detalhes_tarefa fromisoformat (tarefa_exemplo 1 Critica Fazendo None)))"
    by (simp add: exemplo_defs)
  moreover have "status (TASKS ?st ! 0) = Pendente"
    by (simp add: exemplo_defs)
  moreover have "prioridade (tarefa_exemplo 1 Critica Fazendo None) \<notin> set PRIORITY_ORDER"
    using prioridades_distintas(1) by (simp add: tarefa_exemplo_def)
  ultimately show ?thesis by blast
qed

text \<open>
  C10. When some task is pending and no pending task has a priority that is a level of
  the order, the operation does not report "no pending tasks": it selects the first
  pending task in list order and sets its status to \<open>Fazendo\<close>.
\<close>

theorem verificar_urgencia_fallback:
  assumes "\<exists>t\<in>set (TASKS st). status t = Pendente"
    and "\<forall>t\<in>set (TASKS st). status t = Pendente \<longrightarrow> prioridade t \<notin> set PRIORITY_ORDER"
  shows "\<exists>i<length (TASKS st).
           status (TASKS st ! i) = Pendente \<and>
           (\<forall>j<i. status (TASKS st ! j) \<noteq> Pendente) \<and>
           verificar_urgencia fromiso st =
             (st\<lparr>TASKS := (TASKS st)[i := (TASKS st ! i)\<lparr>status := Fazendo\<rparr>]\<rparr>,
              Selecionada (mostrar_detalhes_tarefa fromiso ((TASKS st ! i)\<lparr>status := Fazendo\<rparr>))) \<and>
           verificar_urgencia fromiso st \<noteq> (st, NaoHaPendentes)"
proof -
  from assms(1) have "pendentes (TASKS st) \<noteq> []"
    by (simp add: pendentes_Nil)
  then obtain p0 ps where pend: "pendentes (TASKS st) = p0 # ps"
    by (cases "pendentes (TASKS st)") auto
  have "\<forall>pr\<in>set PRIORITY_ORDER.
          find (\<lambda>i. prioridade (TASKS st ! i) = pr) (pendentes (TASKS st)) = None"
    using assms(2) by (auto simp: find_pendentes_None)
  then have none: "buscar_por_prioridade (TASKS st) (pendentes (TASKS st)) PRIORITY_ORDER = None"
    by (simp add: buscar_None)
  have run: "verificar_urgencia fromiso st =
             (st\<lparr>TASKS := (TASKS st)[p0 := (TASKS st ! p0)\<lparr>status := Fazendo\<rparr>]\<rparr>,
              Selecionada (mostrar_detalhes_tarefa fromiso ((TASKS st ! p0)\<lparr>status := Fazendo\<rparr>)))"
    by (rule verificar_em [OF pend]) (simp add: none)
  from pendentes_Cons [OF pend] run show ?thesis
    by (intro exI [of _ p0]) simp
qed

theorem verificar_urgencia_fallback_witness:
  "(let st = estado_exemplo [tarefa_exemplo 1 Alta Fazendo None,
                             tarefa_exemplo 2 Critica Pendente None] []
    in (\<exists>t\<in>set (TASKS st). status t = Pendente) \<and>
       (\<forall>t\<in>set (TASKS st). status t = Pendente \<longrightarrow> prioridade t \<notin> set PRIORITY_ORDER) \<and>
       (\<exists>i<length (TASKS st). status (TASKS st ! i) = Pendente \<and>
          verificar_urgencia fromisoformat st =
            (st\<lparr>TASKS := (TASKS st)[i := (TASKS st ! i)\<lparr>status := Fazendo\<rparr>]\<rparr>,
             Selecionada (mostrar_detalhes_tarefa fromisoformat
                            ((TASKS st ! i)\<lparr>status := Fazendo\<rparr>)))))"
proof -
  let ?st = "estado_exemplo [tarefa_exemplo 1 Alta Fazendo None,
                             tarefa_exemplo 2 Critica Pendente None] []"
  have ts: "TASKS ?st = [tarefa_exemplo 1 Alta Fazendo None, tarefa_exemplo 2 Critica Pendente None]"
    by (simp add: estado_exemplo_def carregar_dados_def)
  have s: "status (tarefa_exemplo 1 Alta Fazendo None) \<noteq> Pendente"
    "status (tarefa_exemplo 2 Critica Pendente None) = Pendente"
    "prioridade (tarefa_exemplo 2 Critica Pendente None) \<notin> set PRIORITY_ORDER"
    using status_distinct(4) prioridades_distintas(1) by (simp_all add: tarefa_exemplo_def)
  have h1: "\<exists>t\<in>set (TASKS ?st). status t = Pendente"
    unfolding ts using s(2) by simp
  have h2: "\<forall>t\<in>set (TASKS ?st). status t = Pendente \<longrightarrow> prioridade t \<notin> set PRIORITY_ORDER"
    unfolding ts using s by simp
  from verificar_urgencia_fallback [OF h1 h2, of fromisoformat] h1 h2
  show ?thesis unfolding Let_def by blast
qed

section \<open>Creation\<close>

lemma strip_fix_bug: "py_strip (cps ''Fix bug'') = cps ''Fix bug''"
  by (simp add: py_text_defs)

lemma norm_Alta: "py_capitalize (py_strip (cps ''Alta'')) = Alta"
  by (simp add: py_text_defs Alta_def)

lemma Alta_valida: "validar_prioridade Alta"
  by (simp add: validar_prioridade_def PRIORITIES_def Alta_def py_text_defs)

lemma title_email: "py_title (py_strip (cps ''E-mail'')) = cps ''E-Mail''"
  by (simp add: py_title_def py_cased_def py_text_defs)

lemma lower_email:
  "py_lower (cps ''E-Mail'') \<notin>
     set [cps ''chamado'', cps ''chamadodosistema'', cps ''chamado do sistema'']"
  by (simp add: py_text_defs)

lemma email_valida: "validar_origem (cps ''E-Mail'')"
  by (simp add: validar_origem_def ORIGENS_def py_text_defs)

lemma email_fora: "cps ''E-Mail'' \<notin> set ORIGENS"
  by (simp add: ORIGENS_def cps_def)

lemma origem_long_s:
  "py_lower (py_title (py_strip (cps ''chamado do '' @ [383] @ cps ''istema''))) =
     cps ''chamado do sistema''"
  by (simp add: py_title_def py_cased_def py_text_defs)

lemma criar_exemplo:
  "criar_tarefa (cps ''Fix bug'') [] (cps ''Alta'') (cps ''E-mail'') agora st =
     (st\<lparr>ID_COUNTER := ID_COUNTER st + 1,
         TASKS := TASKS st @
           [\<lparr>id_num = Some (ID_COUNTER st), titulo = cps ''Fix bug'', descricao = [],
             prioridade = Alta, status = Pendente, origem = cps ''E-Mail'',
             data_criacao = Some agora, data_conclusao = None\<rparr>]\<rparr>,
      TarefaCriada (ID_COUNTER st))"
proof -
  have d: "py_strip [] = []" by (simp add: py_strip_def)
  have n: "cps ''Fix bug'' \<noteq> []" by (simp add: cps_def)
  show ?thesis
    unfolding criar_tarefa_def Let_def strip_fix_bug norm_Alta title_email d
    using n Alta_valida lower_email email_valida
    by (simp add: gerar_id_def)
qed

lemma criar_prioridade_valida:
  assumes "criar_tarefa ti de pr orig agora st = (st', TarefaCriada n)"
  shows "\<exists>t. TASKS st' = TASKS st @ [t] \<and> id_num t = Some n \<and> n = ID_COUNTER st \<and>
             status t = Pendente \<and> prioridade t \<in> set PRIORITIES"
  using assms
  by (auto simp: criar_tarefa_def gerar_id_def Let_def validar_prioridade_capitalized
      split: if_splits)

text \<open>
  C6 fails on the code for the origin. Creating a task with the origin typed as
  \<open>E-mail\<close> passes validation and stores the origin \<open>E-Mail\<close>, which is not one of
  E-mail, Telefone, Chamado do Sistema: \<open>title()\<close> puts the letter after the hyphen in
  upper case, and \<open>validar_origem\<close> compares capitalised forms, so it accepts the
  text. The priority stored by the same call is in its closed set.
\<close>

theorem criar_tarefa_origem_fora_do_conjunto:
  "criar_tarefa (cps ''Fix bug'') [] (cps ''Alta'') (cps ''E-mail'') agora st =
     (st\<lparr>ID_COUNTER := ID_COUNTER st + 1,
         TASKS := TASKS st @
           [\<lparr>id_num = Some (ID_COUNTER st), titulo = cps ''Fix bug'', descricao = [],
             prioridade = Alta, status = Pendente, origem = cps ''E-Mail'',
             data_criacao = Some agora, data_conclusao = None\<rparr>]\<rparr>,
      TarefaCriada (ID_COUNTER st)) \<and>
   cps ''E-Mail'' \<notin> set ORIGENS \<and> Alta \<in> set PRIORITIES"
  using criar_exemplo [of agora st] email_fora by (simp add: PRIORITIES_def)

section \<open>Execution time\<close>

lemma secs_decomp:
  fixes D :: int
  defines "s \<equiv> (D mod 86400000000) div 1000000"
  shows "(((D div 86400000000) * 24 + s div 3600) * 60 + (s mod 3600) div 60) * 60
           + (s mod 3600) mod 60 = D div 1000000"
proof -
  define q where "q = D div 86400000000"
  define r where "r = D mod 86400000000"
  have D: "D = (q * 86400) * 1000000 + r"
    unfolding q_def r_def by (simp add: mult.assoc)
  have "D div 1000000 = (q * 86400) + r div 1000000"
    by (subst D) (rule div_mult_self3, simp)
  moreover have "s = r div 1000000"
    by (simp add: s_def r_def)
  moreover have "((q * 24 + s div 3600) * 60 + (s mod 3600) div 60) * 60 + (s mod 3600) mod 60
                   = q * 86400 + s"
  proof -
    have a: "(s mod 3600) div 60 * 60 + (s mod 3600) mod 60 = s mod 3600"
      by (rule div_mult_mod_eq)
    have b: "s div 3600 * 3600 + s mod 3600 = s"
      by (rule div_mult_mod_eq)
    have "((q * 24 + s div 3600) * 60 + (s mod 3600) div 60) * 60 + (s mod 3600) mod 60
            = q * 86400 + s div 3600 * 3600 + ((s mod 3600) div 60 * 60 + (s mod 3600) mod 60)"
      by (simp only: distrib_right mult.assoc add.assoc)
    then show ?thesis using a b by simp
  qed
  ultimately show ?thesis by (simp add: q_def)
qed

lemma secs_bounds:
  fixes D :: int
  defines "s \<equiv> (D mod 86400000000) div 1000000"
  shows "0 \<le> s div 3600 \<and> s div 3600 < 24 \<and> 0 \<le> (s mod 3600) div 60 \<and> (s mod 3600) div 60 < 60
         \<and> 0 \<le> (s mod 3600) mod 60 \<and> (s mod 3600) mod 60 < 60"
proof -
  have r: "0 \<le> D mod 86400000000" "D mod 86400000000 < 86400000000"
    by simp_all
  have s: "0 \<le> s" "s < 86400"
    unfolding s_def using r by arith+
  have m: "0 \<le> s mod 3600" "s mod 3600 < 3600" by simp_all
  have "0 \<le> s div 3600" "s div 3600 < 24"
    using s by arith+
  moreover have "0 \<le> (s mod 3600) div 60" "(s mod 3600) div 60 < 60"
    using m by arith+
  ultimately show ?thesis by simp
qed

text \<open>The four numbers shown for a span of \<open>D\<close> microseconds.\<close>

lemma span_split:
  fixes D :: int
  shows "\<exists>d h m s. (D div 86400000000,
               ((D mod 86400000000) div 1000000) div 3600,
               (((D mod 86400000000) div 1000000) mod 3600) div 60,
               (((D mod 86400000000) div 1000000) mod 3600) mod 60) = (d, h, m, s) \<and>
      0 \<le> h \<and> h < 24 \<and> 0 \<le> m \<and> m < 60 \<and> 0 \<le> s \<and> s < 60 \<and>
      ((d * 24 + h) * 60 + m) * 60 + s = D div 1000000"
  using secs_decomp [of D] secs_bounds [of D] by blast

lemma tempo_execucao_parsed:
  assumes "data_criacao t = Some a" "data_conclusao t = Some b" "b \<noteq> []"
    and "fromiso a = Some da" "fromiso b = Some db"
  shows "tempo_execucao fromiso t =
           (case datetime_sub db da of
              Inl e \<Rightarrow> Inl e
            | Inr dur \<Rightarrow> Inr (Some (days dur, seconds dur div 3600,
                                    (seconds dur mod 3600) div 60, (seconds dur mod 3600) mod 60)))"
  using assms
  by (simp add: tempo_execucao_def truthy_def parse_iso_def Let_def split: sum.splits)

lemma tempo_execucao_span:
  assumes "data_criacao t = Some a" "data_conclusao t = Some b" "b \<noteq> []"
    and "fromiso a = Some da" "fromiso b = Some db"
    and "datetime_sub db da = Inr (timedelta_us D)"
  shows "tempo_execucao fromiso t =
           Inr (Some (D div 86400000000,
                      ((D mod 86400000000) div 1000000) div 3600,
                      (((D mod 86400000000) div 1000000) mod 3600) div 60,
                      (((D mod 86400000000) div 1000000) mod 3600) mod 60))"
  using tempo_execucao_parsed [OF assms(1-5)] assms(6)
  by (simp add: timedelta_us_def)

lemma tempo_execucao_None:
  assumes "data_conclusao t = None \<or> data_conclusao t = Some [] \<or>
           parse_iso fromiso (data_criacao t) = None \<or>
           parse_iso fromiso (data_conclusao t) = None"
  shows "tempo_execucao fromiso t = Inr None"
  using assms
  by (auto simp: tempo_execucao_def truthy_def split: option.splits)


text \<open>
  C4, as amended. When the creation date and the completion date both parse and
  neither carries an offset from UTC, the execution time shown is the calendar-naive
  span between them split into days, hours, minutes and seconds: hours below 24,
  minutes and seconds below 60, and together they are the whole seconds of the
  difference (the days carry the sign, as in a \<open>timedelta\<close>); a completion date
  1 day 2 hours 3 minutes 4 seconds after the creation date gives exactly (1, 2, 3, 4).
  When both dates carry an offset, it is the span between the two instants, split the
  same way. When one date carries an offset and the other does not, the computation
  raises \<open>TypeError\<close>. When the completion date is absent or empty, or either date
  does not parse (an absent creation date does not), no execution time is shown.
\<close>

theorem tempo_execucao_decomposes:
  "(data_criacao t = Some a \<and> data_conclusao t = Some b \<and> b \<noteq> [] \<and>
    fromiso a = Some da \<and> fromiso b = Some db \<longrightarrow>
      (utcoffset da = None \<and> utcoffset db = None \<longrightarrow>
         (\<exists>d h m s. tempo_execucao fromiso t = Inr (Some (d, h, m, s)) \<and>
             0 \<le> h \<and> h < 24 \<and> 0 \<le> m \<and> m < 60 \<and> 0 \<le> s \<and> s < 60 \<and>
             ((d * 24 + h) * 60 + m) * 60 + s = (local_us db - local_us da) div 1000000) \<and>
         (local_us db = local_us da + (((1 * 24 + 2) * 60 + 3) * 60 + 4) * 1000000 \<longrightarrow>
            tempo_execucao fromiso t = Inr (Some (1, 2, 3, 4)))) \<and>
      (\<forall>oa ob. utcoffset da = Some oa \<and> utcoffset db = Some ob \<longrightarrow>
         (\<exists>d h m s. tempo_execucao fromiso t = Inr (Some (d, h, m, s)) \<and>
             0 \<le> h \<and> h < 24 \<and> 0 \<le> m \<and> m < 60 \<and> 0 \<le> s \<and> s < 60 \<and>
             ((d * 24 + h) * 60 + m) * 60 + s =
               ((local_us db - ob) - (local_us da - oa)) div 1000000)) \<and>
      ((utcoffset da = None) \<noteq> (utcoffset db = None) \<longrightarrow>
         tempo_execucao fromiso t = Inl TypeError)) \<and>
   (data_conclusao t = None \<or> data_conclusao t = Some [] \<or>
    parse_iso fromiso (data_criacao t) = None \<or>
    parse_iso fromiso (data_conclusao t) = None \<longrightarrow>
      tempo_execucao fromiso t = Inr None)"
proof (intro conjI impI allI)
  assume "data_conclusao t = None \<or> data_conclusao t = Some [] \<or>
    parse_iso fromiso (data_criacao t) = None \<or>
    parse_iso fromiso (data_conclusao t) = None"
  then show "tempo_execucao fromiso t = Inr None" by (rule tempo_execucao_None)
next
  assume h: "data_criacao t = Some a \<and> data_conclusao t = Some b \<and> b \<noteq> [] \<and>
    fromiso a = Some da \<and> fromiso b = Some db"
  then have p: "data_criacao t = Some a" "data_conclusao t = Some b" "b \<noteq> []"
    "fromiso a = Some da" "fromiso b = Some db"
    by simp_all
  {
    assume n: "utcoffset da = None \<and> utcoffset db = None"
    then have sub: "datetime_sub db da = Inr (timedelta_us (local_us db - local_us da))"
      by (simp add: datetime_sub_def)
    note eq = tempo_execucao_span [OF p sub]
    show "\<exists>d h m s. tempo_execucao fromiso t = Inr (Some (d, h, m, s)) \<and>
             0 \<le> h \<and> h < 24 \<and> 0 \<le> m \<and> m < 60 \<and> 0 \<le> s \<and> s < 60 \<and>
             ((d * 24 + h) * 60 + m) * 60 + s = (local_us db - local_us da) div 1000000"
      using span_split [of "local_us db - local_us da"] unfolding eq by blast
    assume "local_us db = local_us da + (((1 * 24 + 2) * 60 + 3) * 60 + 4) * 1000000"
    then have "local_us db - local_us da = 93784000000" by simp
    with eq show "tempo_execucao fromiso t = Inr (Some (1, 2, 3, 4))" by simp
  }
  {
    fix oa ob
    assume "utcoffset da = Some oa \<and> utcoffset db = Some ob"
    then have sub: "datetime_sub db da =
        Inr (timedelta_us ((local_us db - ob) - (local_us da - oa)))"
      by (simp add: datetime_sub_def)
    note eq = tempo_execucao_span [OF p sub]
    show "\<exists>d h m s. tempo_execucao fromiso t = Inr (Some (d, h, m, s)) \<and>
             0 \<le> h \<and> h < 24 \<and> 0 \<le> m \<and> m < 60 \<and> 0 \<le> s \<and> s < 60 \<and>
             ((d * 24 + h) * 60 + m) * 60 + s =
               ((local_us db - ob) - (local_us da - oa)) div 1000000"
      using span_split [of "(local_us db - ob) - (local_us da - oa)"] unfolding eq by blast
  }
  {
    assume "(utcoffset da = None) \<noteq> (utcoffset db = None)"
    then have "datetime_sub db da = Inl TypeError"
      by (auto simp: datetime_sub_def split: option.splits)
    with tempo_execucao_parsed [OF p] show "tempo_execucao fromiso t = Inl TypeError"
      by simp
  }
qed

lemma iso_a:
  "fromisoformat (cps ''2024-01-01T10:00:00'') =
     Some \<lparr>local_us = 63839700000000000, utcoffset = None\<rparr>"
  by (simp add: iso_defs)

lemma iso_b:
  "fromisoformat (cps ''2024-01-02T12:03:04'') =
     Some \<lparr>local_us = 63839793784000000, utcoffset = None\<rparr>"
  by (simp add: iso_defs)

lemma iso_b_utc:
  "fromisoformat (cps ''2024-01-02T12:03:04+00:00'') =
     Some \<lparr>local_us = 63839793784000000, utcoffset = Some 0\<rparr>"
  by (simp add: iso_defs)

theorem tempo_execucao_decomposes_witness:
  "tempo_execucao fromisoformat
     (tarefa_exemplo 1 Alta Concluida (Some (cps ''2024-01-02T12:03:04''))) = Inr (Some (1, 2, 3, 4)) \<and>
   tempo_execucao fromisoformat
     (tarefa_exemplo 1 Alta Concluida (Some (cps ''2024-01-02T12:03:04+00:00''))) = Inl TypeError \<and>
   tempo_execucao fromisoformat (tarefa_exemplo 1 Alta Pendente None) = Inr None"
proof -
  let ?t = "tarefa_exemplo 1 Alta Concluida (Some (cps ''2024-01-02T12:03:04''))"
  let ?m = "tarefa_exemplo 1 Alta Concluida (Some (cps ''2024-01-02T12:03:04+00:00''))"
  let ?u = "tarefa_exemplo 1 Alta Pendente None"
  let ?da = "\<lparr>local_us = 63839700000000000, utcoffset = None\<rparr> :: datetime"
  let ?db = "\<lparr>local_us = 63839793784000000, utcoffset = None\<rparr> :: datetime"
  let ?dz = "\<lparr>local_us = 63839793784000000, utcoffset = Some 0\<rparr> :: datetime"
  have c: "data_criacao ?t = Some (cps ''2024-01-01T10:00:00'')"
      "data_conclusao ?t = Some (cps ''2024-01-02T12:03:04'')"
      "cps ''2024-01-02T12:03:04'' \<noteq> []"
    by (simp_all add: tarefa_exemplo_def cps_def)
  have cm: "data_criacao ?m = Some (cps ''2024-01-01T10:00:00'')"
      "data_conclusao ?m = Some (cps ''2024-01-02T12:03:04+00:00'')"
      "cps ''2024-01-02T12:03:04+00:00'' \<noteq> []"
    by (simp_all add: tarefa_exemplo_def cps_def)
  have d: "utcoffset ?da = None \<and> utcoffset ?db = None"
    "local_us ?db = local_us ?da + (((1 * 24 + 2) * 60 + 3) * 60 + 4) * 1000000"
    "(utcoffset ?da = None) \<noteq> (utcoffset ?dz = None)"
    by simp_all
  have n: "data_conclusao ?u = None" by (simp add: tarefa_exemplo_def)
  from tempo_execucao_decomposes [of ?t "cps ''2024-01-01T10:00:00''" "cps ''2024-01-02T12:03:04''"
      fromisoformat ?da ?db] c iso_a iso_b d(1,2)
  have "tempo_execucao fromisoformat ?t = Inr (Some (1, 2, 3, 4))" by blast
  moreover
  from tempo_execucao_decomposes [of ?m "cps ''2024-01-01T10:00:00''"
      "cps ''2024-01-02T12:03:04+00:00''" fromisoformat ?da ?dz] cm iso_a iso_b_utc d(3)
  have "tempo_execucao fromisoformat ?m = Inl TypeError" by blast
  moreover from tempo_execucao_decomposes [of ?u _ _ fromisoformat] n
  have "tempo_execucao fromisoformat ?u = Inr None" by blast
  ultimately show ?thesis by simp
qed

text \<open>
  C4 as stated does not hold for every pair of dates that parse: here the creation date
  has no offset, the completion date is 1 day 2 hours 3 minutes 4 seconds later on the
  clock and carries the offset \<open>+00:00\<close>, and the computation raises \<open>TypeError\<close>
  instead of returning a span.
\<close>

theorem tempo_execucao_offset_counterexample:
  "data_criacao (tarefa_exemplo 1 Alta Concluida (Some (cps ''2024-01-02T12:03:04+00:00''))) =
     Some (cps ''2024-01-01T10:00:00'') \<and>
   fromisoformat (cps ''2024-01-01T10:00:00'') =
     Some \<lparr>local_us = 63839700000000000, utcoffset = None\<rparr> \<and>
   fromisoformat (cps ''2024-01-02T12:03:04+00:00'') =
     Some \<lparr>local_us = 63839793784000000, utcoffset = Some 0\<rparr> \<and>
   tempo_execucao fromisoformat
     (tarefa_exemplo 1 Alta Concluida (Some (cps ''2024-01-02T12:03:04+00:00''))) = Inl TypeError"
proof -
  let ?m = "tarefa_exemplo 1 Alta Concluida (Some (cps ''2024-01-02T12:03:04+00:00''))"
  have cm: "data_criacao ?m = Some (cps ''2024-01-01T10:00:00'')"
      "data_conclusao ?m = Some (cps ''2024-01-02T12:03:04+00:00'')"
      "cps ''2024-01-02T12:03:04+00:00'' \<noteq> []"
    by (simp_all add: tarefa_exemplo_def cps_def)
  have "tempo_execucao fromisoformat ?m = Inl TypeError"
    using tempo_execucao_parsed [OF cm iso_a iso_b_utc]
    by (simp add: datetime_sub_def)
  with cm(1) iso_a iso_b_utc show ?thesis by blast
qed

section \<open>The report of archived tasks\<close>













section \<open>The archival sweep\<close>

lemma filter_not_in_filter:
  "filter (\<lambda>t. t \<notin> set (filter P ts)) ts = filter (\<lambda>t. \<not> P t) ts"
  by (rule filter_cong) auto


text \<open>Whatever the first loop returns is a selection of the active tasks, in order.\<close>

lemma a_mover_filter:
  assumes "a_mover fromiso limite ts = Inr mv"
  shows "\<exists>P. mv = filter P ts"
proof -
  define sel where "sel t \<longleftrightarrow> status t = Concluida \<and> truthy (data_conclusao t) \<and>
      (case parse_iso fromiso (data_conclusao t) of
         None \<Rightarrow> False
       | Some dt \<Rightarrow> datetime_lt dt limite = Inr True)" for t :: tarefa
  have "mv = filter sel ts"
    using assms
  proof (induction ts arbitrary: mv)
    case Nil
    then show ?case by simp
  next
    case (Cons t ts)
    show ?case
    proof (cases "status t = Concluida \<and> truthy (data_conclusao t)")
      case False
      then have "\<not> sel t" by (auto simp: sel_def)
      moreover from False Cons.prems have "a_mover fromiso limite ts = Inr mv" by auto
      ultimately show ?thesis using Cons.IH by simp
    next
      case True
      show ?thesis
      proof (cases "parse_iso fromiso (data_conclusao t)")
        case None
        then have "\<not> sel t" by (simp add: sel_def)
        moreover from True None Cons.prems have "a_mover fromiso limite ts = Inr mv" by simp
        ultimately show ?thesis using Cons.IH by simp
      next
        case (Some dt)
        from True Some Cons.prems obtain older mv' where
          r: "datetime_lt dt limite = Inr older" "a_mover fromiso limite ts = Inr mv'"
          "mv = (if older then t # mv' else mv')"
          by (auto split: sum.splits)
        have "sel t \<longleftrightarrow> older"
          using True Some r(1) by (simp add: sel_def)
        with r(3) Cons.IH [OF r(2)] show ?thesis by simp
      qed
    qed
  qed
  then show ?thesis by blast
qed





lemma fromisoformat_inj_exemplo:
  "cps ''2024-01-01T10:00:00'' \<noteq> cps ''2024-01-03T10:00:00''"
  by (simp add: cps_def)



section \<open>The priority update\<close>

text \<open>
  C5. The priority update validates before it mutates. For an id that resolves to an
  active task and whatever is typed: when the typed text, stripped and capitalised, is
  a member of the closed set, the priority of that task becomes that member, nothing
  else changes and the change is reported; otherwise the input is rejected and the
  store is returned as it was. \<open>urgente\<close> and \<open>Urgente\<close> both normalise to
  \<open>Urgente\<close> and so give the same store and the same report. \<open>Critica\<close> (with
  i-acute) normalises to itself, is not in the closed set and is rejected.
\<close>

theorem atualizar_prioridade_validates:
  assumes "encontrar_tarefa_por_id (TASKS st) tid = Some i"
  shows "(\<forall>nova_in.
            atualizar_prioridade (Some tid) nova_in st =
              (if py_capitalize (py_strip nova_in) \<in> set PRIORITIES
               then (st\<lparr>TASKS := (TASKS st)[i := (TASKS st ! i)
                                \<lparr>prioridade := py_capitalize (py_strip nova_in)\<rparr>]\<rparr>,
                     PrioridadeAlterada tid (py_capitalize (py_strip nova_in)))
               else (st, PrioridadeInvalida))) \<and>
         py_capitalize (py_strip (cps ''urgente'')) = Urgente \<and>
         py_capitalize (py_strip (cps ''Urgente'')) = Urgente \<and>
         atualizar_prioridade (Some tid) (cps ''urgente'') st =
           atualizar_prioridade (Some tid) (cps ''Urgente'') st \<and>
         atualizar_prioridade (Some tid) (cps ''Urgente'') st =
           (st\<lparr>TASKS := (TASKS st)[i := (TASKS st ! i)\<lparr>prioridade := Urgente\<rparr>]\<rparr>,
            PrioridadeAlterada tid Urgente) \<and>
         py_capitalize (py_strip Critica) = Critica \<and> Critica \<notin> set PRIORITIES \<and>
         atualizar_prioridade (Some tid) Critica st = (st, PrioridadeInvalida)"
proof -
  have g: "atualizar_prioridade (Some tid) nova_in st =
              (if py_capitalize (py_strip nova_in) \<in> set PRIORITIES
               then (st\<lparr>TASKS := (TASKS st)[i := (TASKS st ! i)
                                \<lparr>prioridade := py_capitalize (py_strip nova_in)\<rparr>]\<rparr>,
                     PrioridadeAlterada tid (py_capitalize (py_strip nova_in)))
               else (st, PrioridadeInvalida))" for nova_in
    using atualizar_valida [OF assms, of nova_in] atualizar_invalida [OF assms, of nova_in]
    by simp
  have u: "atualizar_prioridade (Some tid) (cps ''urgente'') st =
           (st\<lparr>TASKS := (TASKS st)[i := (TASKS st ! i)\<lparr>prioridade := Urgente\<rparr>]\<rparr>,
            PrioridadeAlterada tid Urgente)"
    using g [of "cps ''urgente''"] Urgente_valida by (simp add: norm_urgente)
  have U: "atualizar_prioridade (Some tid) (cps ''Urgente'') st =
           (st\<lparr>TASKS := (TASKS st)[i := (TASKS st ! i)\<lparr>prioridade := Urgente\<rparr>]\<rparr>,
            PrioridadeAlterada tid Urgente)"
    using g [of "cps ''Urgente''"] Urgente_valida by (simp add: norm_Urgente)
  have c: "atualizar_prioridade (Some tid) Critica st = (st, PrioridadeInvalida)"
    using g [of Critica] Critica_invalida by (simp add: norm_Critica)
  from g u U c norm_urgente norm_Urgente norm_Critica Critica_invalida show ?thesis
    by simp
qed

theorem atualizar_prioridade_validates_witness:
  "encontrar_tarefa_por_id (TASKS (estado_exemplo [tarefa_exemplo 1 Baixa Pendente None] [])) 1
     = Some 0 \<and>
   prioridade (TASKS (fst (atualizar_prioridade (Some 1) (cps ''urgente'')
                 (estado_exemplo [tarefa_exemplo 1 Baixa Pendente None] []))) ! 0) = Urgente \<and>
   atualizar_prioridade (Some 1) (cps ''urgente'')
       (estado_exemplo [tarefa_exemplo 1 Baixa Pendente None] []) =
     atualizar_prioridade (Some 1) (cps ''Urgente'')
       (estado_exemplo [tarefa_exemplo 1 Baixa Pendente None] []) \<and>
   atualizar_prioridade (Some 1) Critica (estado_exemplo [tarefa_exemplo 1 Baixa Pendente None] [])
     = (estado_exemplo [tarefa_exemplo 1 Baixa Pendente None] [], PrioridadeInvalida)"
proof -
  let ?st = "estado_exemplo [tarefa_exemplo 1 Baixa Pendente None] []"
  have f: "encontrar_tarefa_por_id (TASKS ?st) 1 = Some 0"
    by (simp add: estado_exemplo_def carregar_dados_def tarefa_exemplo_def)
  from atualizar_prioridade_validates [OF f]
  have w: "atualizar_prioridade (Some 1) (cps ''urgente'') ?st =
             atualizar_prioridade (Some 1) (cps ''Urgente'') ?st"
    "atualizar_prioridade (Some 1) (cps ''Urgente'') ?st =
       (?st\<lparr>TASKS := (TASKS ?st)[0 := (TASKS ?st ! 0)\<lparr>prioridade := Urgente\<rparr>]\<rparr>,
        PrioridadeAlterada 1 Urgente)"
    "atualizar_prioridade (Some 1) Critica ?st = (?st, PrioridadeInvalida)"
    by blast+
  have "prioridade (TASKS (fst (atualizar_prioridade (Some 1) (cps ''urgente'') ?st)) ! 0) = Urgente"
    unfolding w(1) w(2) by (simp add: estado_exemplo_def carregar_dados_def)
  with w f show ?thesis by blast
qed

section \<open>Uniqueness of ids\<close>

lemma ids_alt: "ids ts = map the (filter (\<lambda>v. v \<noteq> None) (map id_num ts))"
  by (simp add: ids_def List.map_filter_def filter_map comp_def)

lemma ids_same: "map id_num ts' = map id_num ts \<Longrightarrow> ids ts' = ids ts"
  by (simp add: ids_alt)

lemma ids_append: "ids (xs @ ys) = ids xs @ ids ys"
  by (simp add: ids_alt)

lemma ids_Cons: "ids (t # ts) = (case id_num t of None \<Rightarrow> ids ts | Some i \<Rightarrow> i # ids ts)"
  by (simp add: ids_alt split: option.splits)

lemma ids_Nil: "ids [] = []"
  by (simp add: ids_alt)

lemma ids_update:
  "id_num u = id_num (ts ! i) \<Longrightarrow> ids (ts[i := u]) = ids ts"
  by (rule ids_same) (rule map_id_num_update)

lemma mset_ids_filter:
  "mset (ids (filter P ts)) + mset (ids (filter (\<lambda>t. \<not> P t) ts)) = mset (ids ts)"
  by (induction ts) (auto simp: ids_Cons ids_Nil split: option.splits)

lemma ids_criados_Cons:
  "ids_criados (m # ms) = (case criado m of Some n \<Rightarrow> n # ids_criados ms | None \<Rightarrow> ids_criados ms)"
  by (cases m) simp_all

lemma Max_insert_max:
  fixes a b :: int
  assumes "finite S"
  shows "Max (insert (max a b) S) = Max (insert a (insert b S))"
proof (cases "S = {}")
  case True
  then show ?thesis by (simp add: max.commute)
next
  case False
  with assms show ?thesis by (simp add: max.assoc)
qed

lemma max_id_loop_Max:
  "max_id_loop m ts = Max (insert m (set (ids ts)))"
proof (induction ts arbitrary: m)
  case Nil
  then show ?case by (simp add: ids_Nil)
next
  case (Cons t ts)
  show ?case
  proof (cases "id_num t")
    case None
    then show ?thesis by (simp add: Cons.IH ids_Cons)
  next
    case (Some tid)
    have "(if m < tid then tid else m) = max m tid"
      by (simp add: max_def)
    then have "max_id_loop m (t # ts) = Max (insert (max m tid) (set (ids ts)))"
      using Some by (simp add: Cons.IH)
    also have "\<dots> = Max (insert m (insert tid (set (ids ts))))"
      by (rule Max_insert_max) simp
    finally show ?thesis using Some by (simp add: ids_Cons)
  qed
qed

lemma ids_le_max:
  assumes "i \<in> set (ids ts)"
  shows "i < max_id_loop 0 ts + 1"
proof -
  have "i \<le> Max (insert 0 (set (ids ts)))"
    using assms by (intro Max_ge) simp_all
  then show ?thesis by (simp add: max_id_loop_Max)
qed

lemma carregar_dados_abaixo: "ids_abaixo (carregar_dados tasks_json archive_json)"
  using ids_le_max [of _ "tasks_json @ archive_json"]
  by (simp add: ids_abaixo_def todas_def carregar_dados_def)

lemma passo_same:
  assumes "criado m = None" "ID_COUNTER st' = ID_COUNTER st"
    "map id_num (TASKS st') = map id_num (TASKS st)" "ARCHIVED_TASKS st' = ARCHIVED_TASKS st"
  shows "passo st st' m"
  using assms ids_same [of "TASKS st'" "TASKS st"]
  by (simp add: passo_def todas_def ids_append)

lemma criar_passo: "criar_tarefa ti de pr orig agora st = (st', m) \<Longrightarrow> passo st st' m"
  by (auto simp: criar_tarefa_def gerar_id_def passo_def todas_def ids_append ids_Cons ids_Nil
      Let_def split: if_splits)

lemma verificar_passo: "verificar_urgencia fromiso st = (st', m) \<Longrightarrow> passo st st' m"
  by (rule passo_same)
    (auto simp: verificar_urgencia_def Let_def map_id_num_update split: list.splits)

lemma atualizar_passo: "atualizar_prioridade tid nova st = (st', m) \<Longrightarrow> passo st st' m"
  by (rule passo_same)
    (auto simp: atualizar_prioridade_def Let_def map_id_num_update split: option.splits if_splits)

lemma concluir_passo: "concluir_tarefa tid agora st = (st', m) \<Longrightarrow> passo st st' m"
  by (rule passo_same)
    (auto simp: concluir_tarefa_def map_id_num_update split: option.splits if_splits)

lemma excluir_passo: "excluir_tarefa tid st = (st', m) \<Longrightarrow> passo st st' m"
  by (rule passo_same)
    (auto simp: excluir_tarefa_def map_id_num_update split: option.splits)

lemma relatorio_tarefas_passo: "relatorio_tarefas fromiso st = (st', m) \<Longrightarrow> passo st st' m"
  by (rule passo_same) (auto simp: relatorio_tarefas_def split_beta split: if_splits)

lemma relatorio_arquivadas_passo: "relatorio_arquivadas fromiso st = (st', m) \<Longrightarrow> passo st st' m"
  by (rule passo_same) (auto simp: relatorio_arquivadas_def Let_def split_beta split: if_splits)

lemma arquivar_criado:
  "arquivar_tarefas_antigas fromiso agora st = (st', m) \<Longrightarrow> criado m = None"
  by (auto simp: arquivar_tarefas_antigas_def Let_def split: sum.splits if_splits)

lemma arquivar_passo:
  assumes "arquivar_tarefas_antigas fromiso agora st = (st', m)"
  shows "passo st st' m"
proof -
  let ?lim = "\<lparr>local_us = agora - timedelta_days 7, utcoffset = None\<rparr> :: datetime"
  have m: "criado m = None"
    using assms by (rule arquivar_criado)
  show ?thesis
  proof (cases "a_mover fromiso ?lim (TASKS st)")
    case (Inl e)
    with assms have "st' = st"
      by (simp add: arquivar_tarefas_antigas_def Let_def)
    with m show ?thesis by (simp add: passo_def)
  next
    case (Inr mv)
    from a_mover_filter [OF Inr] obtain P where P: "mv = filter P (TASKS st)"
      by blast
    have st': "st' = st\<lparr>ARCHIVED_TASKS := ARCHIVED_TASKS st @ mv,
                         TASKS := filter (\<lambda>t. t \<notin> set mv) (TASKS st)\<rparr>"
      using assms Inr by (auto simp: arquivar_tarefas_antigas_def Let_def split: if_splits)
    have "filter (\<lambda>t. t \<notin> set mv) (TASKS st) = filter (\<lambda>t. \<not> P t) (TASKS st)"
      unfolding P by (rule filter_not_in_filter)
    then have "mset (ids (todas st')) =
          mset (ids (filter (\<lambda>t. \<not> P t) (TASKS st))) + mset (ids (ARCHIVED_TASKS st))
          + mset (ids (filter P (TASKS st)))"
      by (simp add: st' todas_def ids_append P)
    also have "\<dots> = mset (ids (todas st))"
      using mset_ids_filter [of P "TASKS st"] by (simp add: todas_def ids_append ac_simps)
    finally show ?thesis using m by (simp add: passo_def st')
  qed
qed

lemma executar_passo: "executar fromiso c st = (st', m) \<Longrightarrow> passo st st' m"
proof (cases c)
  case SalvarDados
  assume "executar fromiso c st = (st', m)"
  with SalvarDados show ?thesis by (auto simp: passo_def)
qed (auto intro: criar_passo verificar_passo atualizar_passo concluir_passo excluir_passo
      relatorio_tarefas_passo relatorio_arquivadas_passo arquivar_passo)

lemma passo_abaixo:
  assumes "passo st st' m" "ids_abaixo st"
  shows "ids_abaixo st' \<and> ID_COUNTER st \<le> ID_COUNTER st'"
proof (cases "criado m")
  case None
  with assms(1) have e: "ID_COUNTER st' = ID_COUNTER st"
    "mset (ids (todas st')) = mset (ids (todas st))"
    by (simp_all add: passo_def)
  from e(2) have "set (ids (todas st')) = set (ids (todas st))"
    by (rule mset_eq_setD)
  with assms(2) e(1) show ?thesis by (simp add: ids_abaixo_def)
next
  case (Some n)
  with assms(1) have e: "n = ID_COUNTER st" "ID_COUNTER st' = n + 1"
    "mset (ids (todas st')) = mset (n # ids (todas st))"
    by (simp_all add: passo_def)
  from e(3) have "set (ids (todas st')) = set (n # ids (todas st))"
    by (rule mset_eq_setD)
  with assms(2) e(1,2) show ?thesis by (auto simp: ids_abaixo_def)
qed

lemma menu_loop_ok:
  assumes "menu_loop fromiso cmds st = (st', ms)" "ids_abaixo st"
  shows "ids_abaixo st' \<and> ID_COUNTER st \<le> ID_COUNTER st' \<and>
         sorted_wrt (<) (ids_criados ms) \<and>
         (\<forall>n\<in>set (ids_criados ms). ID_COUNTER st \<le> n \<and> n < ID_COUNTER st') \<and>
         mset (ids (todas st')) = mset (ids (todas st)) + mset (ids_criados ms)"
  using assms
proof (induction cmds arbitrary: st st' ms)
  case Nil
  then show ?case by simp
next
  case (Cons c cs)
  obtain st1 m where ex: "executar fromiso c st = (st1, m)"
    by (cases "executar fromiso c st") auto
  obtain st2 ms2 where rest: "menu_loop fromiso cs st1 = (st2, ms2)"
    by (cases "menu_loop fromiso cs st1") auto
  from Cons.prems(1) ex rest have res: "st' = st2" "ms = m # ms2"
    by simp_all
  have p: "passo st st1 m"
    using ex by (rule executar_passo)
  from passo_abaixo [OF p Cons.prems(2)] have ok1: "ids_abaixo st1"
    and le1: "ID_COUNTER st \<le> ID_COUNTER st1"
    by simp_all
  from Cons.IH [OF rest ok1] have ih: "ids_abaixo st2" "ID_COUNTER st1 \<le> ID_COUNTER st2"
    "sorted_wrt (<) (ids_criados ms2)"
    "\<forall>n\<in>set (ids_criados ms2). ID_COUNTER st1 \<le> n \<and> n < ID_COUNTER st2"
    "mset (ids (todas st2)) = mset (ids (todas st1)) + mset (ids_criados ms2)"
    by simp_all
  show ?case
  proof (cases "criado m")
    case None
    with p have "ID_COUNTER st1 = ID_COUNTER st" "mset (ids (todas st1)) = mset (ids (todas st))"
      by (simp_all add: passo_def)
    with ih None show ?thesis
      by (simp add: res ids_criados_Cons)
  next
    case (Some n)
    with p have e: "n = ID_COUNTER st" "ID_COUNTER st1 = n + 1"
      "mset (ids (todas st1)) = add_mset n (mset (ids (todas st)))"
      by (simp_all add: passo_def)
    have "\<forall>k\<in>set (ids_criados ms2). n < k"
      using ih(4) e(2) by auto
    with ih e Some show ?thesis
      by (auto simp: res ids_criados_Cons)
  qed
qed

lemma main_ok:
  assumes "main fromiso tasks_json archive_json agora0 cmds = (st, msgs)"
  shows "ids_abaixo st \<and> sorted_wrt (<) (ids_criados msgs) \<and>
         (\<forall>n\<in>set (ids_criados msgs).
            ID_COUNTER (carregar_dados tasks_json archive_json) \<le> n) \<and>
         mset (ids (todas st)) = mset (ids (tasks_json @ archive_json)) + mset (ids_criados msgs)"
proof -
  let ?st0 = "carregar_dados tasks_json archive_json"
  obtain st1 m where a: "arquivar_tarefas_antigas fromiso agora0 ?st0 = (st1, m)"
    by (cases "arquivar_tarefas_antigas fromiso agora0 ?st0") auto
  have ok0: "ids_abaixo ?st0"
    by (rule carregar_dados_abaixo)
  have p: "passo ?st0 st1 m"
    using a by (rule arquivar_passo)
  have c: "criado m = None"
    using a by (rule arquivar_criado)
  with p have e: "ID_COUNTER st1 = ID_COUNTER ?st0" "mset (ids (todas st1)) = mset (ids (todas ?st0))"
    by (simp_all add: passo_def)
  from passo_abaixo [OF p ok0] have ok1: "ids_abaixo st1"
    by simp
  have t0: "todas ?st0 = tasks_json @ archive_json"
    by (simp add: todas_def carregar_dados_def)
  show ?thesis
  proof (cases "\<exists>e. m = Levantou e")
    case True
    with assms a have "st = st1" "msgs = [m]"
      by (auto simp: main_def)
    with ok1 e c show ?thesis
      by (simp add: ids_criados_Cons t0)
  next
    case False
    obtain st2 ms where l: "menu_loop fromiso cmds st1 = (st2, ms)"
      by (cases "menu_loop fromiso cmds st1") auto
    from False assms a l have res: "st = st2" "msgs = m # ms"
      by (cases m; simp add: main_def)+
    from menu_loop_ok [OF l ok1] e c show ?thesis
      by (simp add: res ids_criados_Cons t0)
  qed
qed

text \<open>
  C7, as amended. A session loads two collections, runs the archival sweep once and
  then any sequence of menu commands (none, when the sweep at start raises). At the end
  of every such session: the ids handed out by the creations of the session are
  strictly increasing in creation order, none of them is an id that was loaded, and
  each of them is still in one of the two collections; the ids of the two collections
  together are exactly the loaded ids and the created ones, so archival and logical
  deletion keep every id; every id is below the counter. When the loaded ids are
  pairwise distinct, so are the ids of the two collections together at the end. On load
  the counter is one more than the largest of 0 and the ids found in either
  collection, which is one more than the maximum id found when some id is not negative.
\<close>

theorem ids_unique_increasing:
  assumes "main fromiso tasks_json archive_json agora0 cmds = (st, msgs)"
  shows "sorted_wrt (<) (ids_criados msgs) \<and>
         (\<forall>n\<in>set (ids_criados msgs).
            n \<notin> set (ids (tasks_json @ archive_json)) \<and>
            n \<in> set (ids (TASKS st @ ARCHIVED_TASKS st))) \<and>
         mset (ids (TASKS st @ ARCHIVED_TASKS st)) =
           mset (ids (tasks_json @ archive_json)) + mset (ids_criados msgs) \<and>
         set (ids (tasks_json @ archive_json)) \<subseteq> set (ids (TASKS st @ ARCHIVED_TASKS st)) \<and>
         (\<forall>i\<in>set (ids (TASKS st @ ARCHIVED_TASKS st)). i < ID_COUNTER st) \<and>
         (distinct (ids (tasks_json @ archive_json)) \<longrightarrow>
            distinct (ids (TASKS st @ ARCHIVED_TASKS st))) \<and>
         ID_COUNTER (carregar_dados tasks_json archive_json) =
           Max (insert 0 (set (ids (tasks_json @ archive_json)))) + 1 \<and>
         ((\<exists>i\<in>set (ids (tasks_json @ archive_json)). 0 \<le> i) \<longrightarrow>
            ID_COUNTER (carregar_dados tasks_json archive_json) =
              Max (set (ids (tasks_json @ archive_json))) + 1)"
proof -
  let ?S = "set (ids (tasks_json @ archive_json))"
  let ?F = "ids (TASKS st @ ARCHIVED_TASKS st)"
  note m = main_ok [OF assms]
  from m have below: "\<forall>i\<in>set ?F. i < ID_COUNTER st"
    and srt: "sorted_wrt (<) (ids_criados msgs)"
    by (simp_all add: ids_abaixo_def todas_def)
  from m have ms: "mset ?F = mset (ids (tasks_json @ archive_json) @ ids_criados msgs)"
    by (simp add: todas_def)
  then have sets: "set ?F = ?S \<union> set (ids_criados msgs)"
    by (metis mset_eq_setD set_append)
  have cnt: "ID_COUNTER (carregar_dados tasks_json archive_json) = Max (insert 0 ?S) + 1"
    by (simp add: carregar_dados_def max_id_loop_Max)
  have lt: "i < ID_COUNTER (carregar_dados tasks_json archive_json)" if "i \<in> ?S" for i
    using ids_le_max [OF that] by (simp add: carregar_dados_def)
  have fresh: "\<forall>n\<in>set (ids_criados msgs). n \<notin> ?S"
    using m lt by fastforce
  have dist: "distinct ?F" if "distinct (ids (tasks_json @ archive_json))"
  proof -
    have "distinct (ids_criados msgs)"
      using srt by (simp add: strict_sorted_iff)
    with that fresh have "distinct (ids (tasks_json @ archive_json) @ ids_criados msgs)"
      by auto
    with ms show ?thesis
      by (metis mset_eq_imp_distinct_iff)
  qed
  have pos: "Max (insert 0 ?S) = Max ?S" if "\<exists>i\<in>?S. 0 \<le> i"
  proof -
    from that obtain i where i: "i \<in> ?S" "0 \<le> i" by blast
    then have "0 \<le> Max ?S" by (meson List.finite_set Max_ge order_trans)
    moreover from i(1) have "?S \<noteq> {}" by auto
    ultimately show ?thesis by (simp add: max_def)
  qed
  from srt fresh sets ms below dist cnt pos show ?thesis
    by (simp add: todas_def)
qed

lemma ids_exemplo: "ids (tarefa_exemplo n pr stt c # ts) = n # ids ts"
  by (simp add: ids_Cons tarefa_exemplo_def)

theorem ids_unique_increasing_witness:
  "(let tasks_json = [tarefa_exemplo 1 Baixa Pendente None];
        archive_json = [tarefa_exemplo 2 Alta Concluida (Some (cps ''2024-01-01T10:00:00''))];
        cmds = [CriarTarefa (cps ''Fix bug'') [] (cps ''Alta'') (cps ''E-mail'')
                  (cps ''2024-01-09T10:00:00''),
                ExcluirTarefa (Some 1),
                CriarTarefa (cps ''Fix bug'') [] (cps ''Alta'') (cps ''E-mail'')
                  (cps ''2024-01-09T10:00:00'')];
        r = main fromisoformat tasks_json archive_json 63840391200000000 cmds
    in distinct (ids (tasks_json @ archive_json)) \<and>
       (\<exists>i\<in>set (ids (tasks_json @ archive_json)). 0 \<le> i) \<and>
       ids_criados (snd r) = [3, 4] \<and>
       distinct (ids (TASKS (fst r) @ ARCHIVED_TASKS (fst r))) \<and>
       sorted_wrt (<) (ids_criados (snd r)) \<and>
       ID_COUNTER (carregar_dados tasks_json archive_json) =
         Max (set (ids (tasks_json @ archive_json))) + 1 \<and>
       ID_COUNTER (carregar_dados tasks_json archive_json) = 3)"
proof -
  let ?tj = "[tarefa_exemplo 1 Baixa Pendente None]"
  let ?aj = "[tarefa_exemplo 2 Alta Concluida (Some (cps ''2024-01-01T10:00:00''))]"
  let ?cmds = "[CriarTarefa (cps ''Fix bug'') [] (cps ''Alta'') (cps ''E-mail'')
                  (cps ''2024-01-09T10:00:00''),
                ExcluirTarefa (Some 1),
                CriarTarefa (cps ''Fix bug'') [] (cps ''Alta'') (cps ''E-mail'')
                  (cps ''2024-01-09T10:00:00'')]"
  let ?r = "main fromisoformat ?tj ?aj 63840391200000000 ?cmds"
  have i: "ids (?tj @ ?aj) = [1, 2]"
    by (simp add: ids_exemplo ids_Nil)
  then have d: "distinct (ids (?tj @ ?aj))" and e: "\<exists>i\<in>set (ids (?tj @ ?aj)). 0 \<le> i"
    by simp_all
  have c0: "ID_COUNTER (carregar_dados ?tj ?aj) = 3"
    by (simp add: carregar_dados_def tarefa_exemplo_def)
  have p: "status (tarefa_exemplo 1 Baixa Pendente None) \<noteq> Concluida"
    using status_distinct(2) by (simp add: tarefa_exemplo_def)
  then have mv: "a_mover fromisoformat lim (TASKS (carregar_dados ?tj ?aj)) = Inr []" for lim
    by (simp add: carregar_dados_def)
  have sw: "arquivar_tarefas_antigas fromisoformat 63840391200000000 (carregar_dados ?tj ?aj) =
      (carregar_dados ?tj ?aj, NenhumaParaArquivar)"
    by (simp add: arquivar_tarefas_antigas_def Let_def mv)
  have "snd ?r = NenhumaParaArquivar # snd (menu_loop fromisoformat ?cmds (carregar_dados ?tj ?aj))"
    by (simp add: main_def Let_def sw split_beta del: menu_loop.simps)
  moreover have "ids_criados (snd (menu_loop fromisoformat ?cmds (carregar_dados ?tj ?aj))) = [3, 4]"
    by (simp add: criar_exemplo c0 excluir_tarefa_def carregar_dados_def tarefa_exemplo_def
        split_beta)
  ultimately have cr: "ids_criados (snd ?r) = [3, 4]"
    by simp
  from ids_unique_increasing [of fromisoformat ?tj ?aj 63840391200000000 ?cmds "fst ?r" "snd ?r"] d e
  have "distinct (ids (TASKS (fst ?r) @ ARCHIVED_TASKS (fst ?r))) \<and>
        sorted_wrt (<) (ids_criados (snd ?r)) \<and>
        ID_COUNTER (carregar_dados ?tj ?aj) = Max (set (ids (?tj @ ?aj))) + 1"
    by simp
  with d e cr c0 show ?thesis unfolding Let_def by blast
qed

text \<open>
  C7 as stated does not hold for every session: a session that loads two active tasks
  with the id 1 and runs no command ends with ids that are not pairwise distinct; and
  loading the ids -5 and -2 sets the counter to 1, not to one more than their maximum.
\<close>

theorem ids_duplicate_counterexample:
  "\<not> distinct (ids (TASKS (fst (main fromisoformat
        [tarefa_exemplo 1 Baixa Pendente None, tarefa_exemplo 1 Alta Pendente None] []
        63840391200000000 [])) @
      ARCHIVED_TASKS (fst (main fromisoformat
        [tarefa_exemplo 1 Baixa Pendente None, tarefa_exemplo 1 Alta Pendente None] []
        63840391200000000 [])))) \<and>
   ids [tarefa_exemplo (- 5) Baixa Pendente None, tarefa_exemplo (- 2) Alta Pendente None]
     = [- 5, - 2] \<and>
   ID_COUNTER (carregar_dados
     [tarefa_exemplo (- 5) Baixa Pendente None, tarefa_exemplo (- 2) Alta Pendente None] []) = 1"
proof -
  let ?tj = "[tarefa_exemplo 1 Baixa Pendente None, tarefa_exemplo 1 Alta Pendente None]"
  have p: "status (tarefa_exemplo n pr Pendente None) \<noteq> Concluida" for n pr
    using status_distinct(2) by (simp add: tarefa_exemplo_def)
  have mv: "a_mover fromisoformat lim (TASKS (carregar_dados ?tj [])) = Inr []" for lim
    using p by (simp add: carregar_dados_def)
  have "fst (main fromisoformat ?tj [] 63840391200000000 []) = carregar_dados ?tj []"
    by (simp add: main_def Let_def arquivar_tarefas_antigas_def mv)
  then have "ids (TASKS (fst (main fromisoformat ?tj [] 63840391200000000 [])) @
      ARCHIVED_TASKS (fst (main fromisoformat ?tj [] 63840391200000000 []))) = [1, 1]"
    by (simp add: carregar_dados_def ids_exemplo ids_Nil)
  moreover have "ids [tarefa_exemplo (- 5) Baixa Pendente None,
      tarefa_exemplo (- 2) Alta Pendente None] = [- 5, - 2]"
    by (simp add: ids_exemplo ids_Nil)
  moreover have "ID_COUNTER (carregar_dados
     [tarefa_exemplo (- 5) Baixa Pendente None, tarefa_exemplo (- 2) Alta Pendente None] []) = 1"
    by (simp add: carregar_dados_def tarefa_exemplo_def)
  ultimately show ?thesis by simp
qed

end
